theory Spec2Isabelle
  imports Complex_Main "HOL-Library.AList"
begin

section \<open>Data model\<close>

text \<open>
  The rows of the Prisma schema that the two route handlers read and write.  A table is an
  association list from the row id to the row, looked up with \<open>map_of\<close>; the id of a row
  is its key.  \<open>Decimal\<close> is a real number, \<open>Int\<close> an integer.  The \<open>OrderItem\<close> rows of
  an order are kept with the order, as \<open>include: { orderItems: true }\<close> returns them.
\<close>

type_synonym 'row table = "(string \<times> 'row) list"

record product =
  name :: string
  price :: real
  inStock :: int

record order_item =
  item_productId :: string
  item_quantity :: int

record order =
  storeId :: string
  isPaid :: bool
  isSent :: bool
  orderItems :: "order_item list"
  shippingDetailsId :: "string option"

record shipping_details =
  addressLine1 :: string
  addressLine2 :: "string option"
  city :: string
  state :: string
  zipCode :: string
  country :: string
  phoneNumber :: string

record db =
  productTable :: "product table"
  orderTable :: "order table"
  shippingDetailsTable :: "shipping_details table"

text \<open>
  Every \<open>throw\<close> of the handlers, and the failures of the Prisma client they can meet.
\<close>

datatype error =
    ProductNotFound string        \<comment> \<open>checkout: \<open>Product with ID ... not found.\<close>\<close>
  | NotEnoughStock string         \<comment> \<open>checkout: \<open>Not enough stock for <name>.\<close>\<close>
  | NoProductsAvailable           \<comment> \<open>checkout: \<open>No products available.\<close>\<close>
  | PaymentInitiationFailed string
  | WebhookProductNotFound string \<comment> \<open>webhook: \<open>Product with id ... not found.\<close>\<close>
  | WebhookNotEnoughStock string  \<comment> \<open>webhook: \<open>Not enough items in stock for product id ...\<close>\<close>
  | RecordNotFound                \<comment> \<open>Prisma: the row to update or connect does not exist\<close>
  | UniqueConstraintFailed        \<comment> \<open>Prisma: a unique column already holds the value\<close>
  | ClientValidation              \<comment> \<open>Prisma: the arguments do not fit the schema\<close>

fun message :: "error \<Rightarrow> string" where
  "message (ProductNotFound pid) = ''Product with ID '' @ pid @ '' not found.''"
| "message (NotEnoughStock n) = ''Not enough stock for '' @ n @ ''.''"
| "message NoProductsAvailable = ''No products available.''"
| "message (PaymentInitiationFailed m) = m"
| "message (WebhookProductNotFound pid) = ''Product with id '' @ pid @ '' not found.''"
| "message (WebhookNotEnoughStock pid) =
     ''Not enough items in stock for product id '' @ pid @ ''.''"
| "message RecordNotFound = ''Record to update not found.''"
| "message UniqueConstraintFailed = ''Unique constraint failed.''"
| "message ClientValidation = ''Invalid invocation.''"

section \<open>JavaScript numbers\<close>

text \<open>
  \<open>product.price.toNumber() * 100\<close> and the \<open>reduce\<close> over \<open>line_items\<close> compute in
  IEEE 754 binary64.  A finite double is the real number it denotes; \<open>NonFinite\<close> stands for
  \<open>Infinity\<close>, \<open>-Infinity\<close> and \<open>NaN\<close>, which the three operations used here never turn back
  into a finite number.  \<open>fl\<close> rounds a real number to the nearest double, ties to even, with
  the subnormal range and overflow.
\<close>

datatype number = Num real | NonFinite

function bit_length :: "int \<Rightarrow> nat" where
  "bit_length n = (if n \<le> 0 then 0 else Suc (bit_length (n div 2)))"
  by pat_completeness auto
termination
  by (relation "measure nat") auto

declare bit_length.simps [simp del]

definition pow2 :: "int \<Rightarrow> real" where
  "pow2 e = (if 0 \<le> e then 2 ^ nat e else 1 / 2 ^ nat (- e))"

definition exponent_of :: "real \<Rightarrow> int" where
  "exponent_of x =
     (if 1 \<le> \<bar>x\<bar> then int (bit_length \<lfloor>\<bar>x\<bar>\<rfloor>) - 1
      else - int (bit_length (\<lceil>1 / \<bar>x\<bar>\<rceil> - 1)))"

definition round_half_even :: "real \<Rightarrow> int" where
  "round_half_even m =
     (let f = \<lfloor>m\<rfloor>; r = m - of_int f
      in if r < 1 / 2 then f else if 1 / 2 < r then f + 1
         else if even f then f else f + 1)"

definition fl :: "real \<Rightarrow> number" where
  "fl x =
     (if x = 0 then Num 0
      else let e = max (exponent_of x - 52) (- 1074);
               y = of_int (round_half_even (x / pow2 e)) * pow2 e
           in if 2 ^ 1024 \<le> \<bar>y\<bar> then NonFinite else Num y)"

fun fmul :: "number \<Rightarrow> number \<Rightarrow> number" where
  "fmul (Num a) (Num b) = fl (a * b)"
| "fmul _ _ = NonFinite"

fun fadd :: "number \<Rightarrow> number \<Rightarrow> number" where
  "fadd (Num a) (Num b) = fl (a + b)"
| "fadd _ _ = NonFinite"

fun fdiv :: "number \<Rightarrow> number \<Rightarrow> number" where
  "fdiv (Num a) (Num b) = (if b = 0 then NonFinite else fl (a / b))"
| "fdiv _ _ = NonFinite"

definition toNumber :: "real \<Rightarrow> number" where
  "toNumber d = fl d"

section \<open>Storage statements\<close>

text \<open>
  The Prisma calls of the handlers, on the tables.  \<open>findUnique\<close> answers \<open>null\<close> for a
  missing row; \<open>update\<close> throws for one; \<open>create\<close> throws when the id, or a unique column,
  is taken.  The ids that \<open>@default(uuid())\<close> generates are arguments.
\<close>

definition product_findUnique :: "db \<Rightarrow> string \<Rightarrow> product option" where
  "product_findUnique d pid = map_of (productTable d) pid"

definition product_update :: "db \<Rightarrow> string \<Rightarrow> int \<Rightarrow> error + db" where
  "product_update d pid v =
     (case map_of (productTable d) pid of
        None \<Rightarrow> Inl RecordNotFound
      | Some p \<Rightarrow>
          Inr (d\<lparr>productTable := AList.update pid (p\<lparr>inStock := v\<rparr>) (productTable d)\<rparr>))"

definition shippingDetails_create :: "db \<Rightarrow> string \<Rightarrow> shipping_details \<Rightarrow> error + db" where
  "shippingDetails_create d sid row =
     (case map_of (shippingDetailsTable d) sid of
        Some _ \<Rightarrow> Inl UniqueConstraintFailed
      | None \<Rightarrow>
          Inr (d\<lparr>shippingDetailsTable := AList.update sid row (shippingDetailsTable d)\<rparr>))"

definition order_create :: "db \<Rightarrow> string \<Rightarrow> order \<Rightarrow> error + db" where
  "order_create d oid row =
     (if map_of (orderTable d) oid \<noteq> None then Inl UniqueConstraintFailed
      else if list_ex (\<lambda>(k, r). shippingDetailsId r \<noteq> None
                \<and> shippingDetailsId r = shippingDetailsId row) (orderTable d)
      then Inl UniqueConstraintFailed
      else if list_ex (\<lambda>i. map_of (productTable d) (item_productId i) = None) (orderItems row)
      then Inl RecordNotFound
      else Inr (d\<lparr>orderTable := AList.update oid row (orderTable d)\<rparr>))"

text \<open>
  \<open>order.update\<close> takes the columns to write by name.  The client checks the call against
  \<open>model Order\<close> of the schema before it sends anything: a column that the model does not
  declare, or \<open>where: { id: undefined }\<close>, throws in the client and no statement reaches
  the storage.  \<open>order_fields\<close> are the fields of \<open>model Order\<close>.
\<close>

datatype field_value = BoolValue bool | StringValue string

definition order_fields :: "string list" where
  "order_fields = [''id'', ''storeId'', ''isPaid'', ''createdAt'', ''updatedAt'', ''isSent'',
     ''store'', ''orderItems'', ''shippingDetails'', ''shippingDetailsId'']"

fun set_field :: "order \<Rightarrow> string \<times> field_value \<Rightarrow> order" where
  "set_field r (c, BoolValue b) =
     (if c = ''isPaid'' then r\<lparr>isPaid := b\<rparr>
      else if c = ''isSent'' then r\<lparr>isSent := b\<rparr> else r)"
| "set_field r (c, StringValue s) =
     (if c = ''storeId'' then r\<lparr>storeId := s\<rparr>
      else if c = ''shippingDetailsId'' then r\<lparr>shippingDetailsId := Some s\<rparr> else r)"

definition accepted :: "string option \<Rightarrow> (string \<times> field_value) list \<Rightarrow> bool" where
  "accepted oid data = (oid \<noteq> None \<and> \<not> list_ex (\<lambda>(c, v). c \<notin> set order_fields) data)"

definition order_update ::
  "db \<Rightarrow> string option \<Rightarrow> (string \<times> field_value) list \<Rightarrow> error + (order \<times> db)" where
  "order_update d oid data =
     (if \<not> accepted oid data then Inl ClientValidation
      else
        (case oid of
           None \<Rightarrow> Inl ClientValidation
         | Some i \<Rightarrow>
             (case map_of (orderTable d) i of
                None \<Rightarrow> Inl RecordNotFound
              | Some r \<Rightarrow>
                  Inr (foldl set_field r data,
                       d\<lparr>orderTable := AList.update i (foldl set_field r data) (orderTable d)\<rparr>))))"

section \<open>Checkout: \<open>POST /api/[storeId]/checkout\<close>\<close>

record product_data =
  productId :: string
  quantity :: int

record request_body =
  products :: "product_data list option"
  shippingDetails :: "shipping_details option"

record line_item =
  li_name :: string
  li_quantity :: int
  unit_amount :: number

record checkout_result =
  created_id :: string
  created_order :: order
  totalAmount :: number

text \<open>
  The \<open>for (const productData of products)\<close> loop of the transaction: read the product,
  the two guards, push the line item, write the decremented stock.  \<open>quantity\<close> is an
  integer; the stock column takes no other number.
\<close>

fun for_products :: "db \<Rightarrow> line_item list \<Rightarrow> product_data list \<Rightarrow> error + (db \<times> line_item list)" where
  "for_products tx line_items [] = Inr (tx, line_items)"
| "for_products tx line_items (productData # rest) =
     (case product_findUnique tx (productId productData) of
        None \<Rightarrow> Inl (ProductNotFound (productId productData))
      | Some p \<Rightarrow>
          if inStock p < quantity productData then Inl (NotEnoughStock (name p))
          else
            (case product_update tx (productId productData)
                    (inStock p - quantity productData) of
               Inl e \<Rightarrow> Inl e
             | Inr tx' \<Rightarrow>
                 for_products tx'
                   (line_items @
                     [\<lparr>li_name = name p, li_quantity = quantity productData,
                       unit_amount = fmul (toNumber (price p)) (Num 100)\<rparr>])
                   rest))"

definition reduce_total :: "line_item list \<Rightarrow> number" where
  "reduce_total line_items =
     foldl (\<lambda>total item. fadd total (fmul (unit_amount item) (Num (of_int (li_quantity item)))))
       (Num 0) line_items"

definition checkout_body ::
  "string \<Rightarrow> product_data list \<Rightarrow> shipping_details \<Rightarrow> string \<Rightarrow> string \<Rightarrow> db
     \<Rightarrow> error + (checkout_result \<times> db)" where
  "checkout_body store cart shipping newShippingId newOrderId tx =
     (case for_products tx [] cart of
        Inl e \<Rightarrow> Inl e
      | Inr (tx1, line_items) \<Rightarrow>
          if length line_items = 0 then Inl NoProductsAvailable
          else
            (case shippingDetails_create tx1 newShippingId shipping of
               Inl e \<Rightarrow> Inl e
             | Inr tx2 \<Rightarrow>
                 let row = \<lparr>storeId = store, isPaid = False,
                            isSent = False,
                            orderItems = map (\<lambda>productData.
                                \<lparr>item_productId = productId productData,
                                 item_quantity = quantity productData\<rparr>) cart,
                            shippingDetailsId = Some newShippingId\<rparr>
                 in (case order_create tx2 newOrderId row of
                       Inl e \<Rightarrow> Inl e
                     | Inr tx3 \<Rightarrow>
                         Inr (\<lparr>created_id = newOrderId, created_order = row,
                               totalAmount = fdiv (reduce_total line_items) (Num 100)\<rparr>,
                              tx3))))"

text \<open>\<open>prismadb.$transaction\<close>: the writes of a callback that throws are rolled back.\<close>

definition transaction :: "(db \<Rightarrow> error + ('a \<times> db)) \<Rightarrow> db \<Rightarrow> (error + 'a) \<times> db" where
  "transaction f d = (case f d of Inl e \<Rightarrow> (Inl e, d) | Inr (r, d') \<Rightarrow> (Inr r, d'))"

text \<open>
  The request to the payment processor and its answer.  The processor is outside the
  repository: \<open>flutterwave\<close> is what it answers to a payload, \<open>FetchThrows\<close> a failed
  \<open>fetch\<close> or an answer that is not JSON, \<open>Reply\<close> the fields \<open>status\<close>, \<open>message\<close> and
  \<open>data\<close> (with its \<open>link\<close>) of the answer; reading \<open>data.link\<close> of an answer without
  \<open>data\<close> throws.  \<open>now\<close> is \<open>Date.now()\<close>.
\<close>

record payment_payload =
  tx_ref :: string
  amount :: number
  phone_number :: string
  customer_name :: string
  meta_orderId :: string

datatype fw_reply =
    FetchThrows string
  | Reply "string option" "string option" "string option option"

record checkout_env =
  newShippingDetailsId :: string
  newOrderId :: string
  now :: nat
  flutterwave :: "payment_payload \<Rightarrow> fw_reply"

datatype body =
    Text string
  | ErrorJson string
  | UrlJson "string option"
  | MessageJson string
  | NoBody

type_synonym response = "nat \<times> body"

fun decimal :: "nat \<Rightarrow> string" where
  "decimal n =
     (if n < 10 then [char_of (48 + n)]
      else decimal (n div 10) @ [char_of (48 + n mod 10)])"

declare decimal.simps [simp del]

definition checkout_POST :: "checkout_env \<Rightarrow> string \<Rightarrow> request_body \<Rightarrow> db \<Rightarrow> response \<times> db" where
  "checkout_POST env store req d =
     (case products req of
        None \<Rightarrow> ((400, Text ''Products are required''), d)
      | Some cart \<Rightarrow>
          if length cart = 0 then ((400, Text ''Products are required''), d)
          else
            (case shippingDetails req of
               None \<Rightarrow> ((400, Text ''Shipping details are required''), d)
             | Some shipping \<Rightarrow>
                 (case transaction
                         (checkout_body store cart shipping
                            (newShippingDetailsId env) (newOrderId env)) d of
                    (Inl e, d') \<Rightarrow> ((400, ErrorJson (message e)), d')
                  | (Inr result, d') \<Rightarrow>
                      let paymentPayload =
                            \<lparr>tx_ref = ''order_'' @ created_id result @ ''_'' @ decimal (now env),
                             amount = totalAmount result,
                             phone_number = phoneNumber shipping,
                             customer_name = city shipping @ '', '' @ state shipping,
                             meta_orderId = created_id result\<rparr>
                      in (case flutterwave env paymentPayload of
                            FetchThrows m \<Rightarrow> ((400, ErrorJson m), d')
                          | Reply status msg dat \<Rightarrow>
                              if status = None \<or> status = Some [] \<or> status \<noteq> Some ''success''
                              then ((400, ErrorJson
                                       (case msg of
                                          None \<Rightarrow> ''Payment initiation failed.''
                                        | Some m \<Rightarrow>
                                            if m = [] then ''Payment initiation failed.'' else m)),
                                    d')
                              else
                                (case dat of
                                   None \<Rightarrow>
                                     ((400, ErrorJson ''Cannot read properties of undefined''), d')
                                 | Some link \<Rightarrow> ((200, UrlJson link), d'))))))"

section \<open>Flutterwave webhook: \<open>paymentWebhook\<close>\<close>

text \<open>
  The match of the regular expression \<open>order_(.+)_\d+\<close> in \<open>tx_ref\<close>: the leftmost
  \<open>order_\<close> after which a greedy, non-empty run of characters other than line terminators
  is followed by \<open>_\<close> and a digit; the first group is the longest such run.
\<close>

definition is_digit :: "char \<Rightarrow> bool" where
  "is_digit c = (c \<in> set ''0123456789'')"

definition is_line_terminator :: "char \<Rightarrow> bool" where
  "is_line_terminator c = (c = CHR 0x0A \<or> c = CHR 0x0D)"

definition capture :: "string \<Rightarrow> string option" where
  "capture r =
     (let line = takeWhile (\<lambda>c. \<not> is_line_terminator c) r;
          js = filter (\<lambda>j. r ! j = CHR ''_'' \<and> Suc j < length r \<and> is_digit (r ! Suc j))
                 (rev [1..<length line])
      in case js of [] \<Rightarrow> None | j # _ \<Rightarrow> Some (take j r))"

fun match_order_id :: "string \<Rightarrow> string option" where
  "match_order_id [] = None"
| "match_order_id (c # cs) =
     (if take 6 (c # cs) = ''order_''
      then (case capture (drop 6 (c # cs)) of
              Some g \<Rightarrow> Some g
            | None \<Rightarrow> match_order_id cs)
      else match_order_id cs)"

record fw_data =
  data_tx_ref :: "string option"
  data_status :: "string option"

record fw_payload =
  payload_event :: "string option"
  payload_data :: "fw_data option"

definition paymentWebhook :: "fw_payload \<Rightarrow> db \<Rightarrow> response \<times> db" where
  "paymentWebhook payload d =
     (if payload_event payload \<noteq> Some ''charge.completed''
      then ((400, Text ''Invalid event type''), d)
      else
        (case payload_data payload of
           None \<Rightarrow> ((500, Text ''Internal Server Error''), d)
         | Some dat \<Rightarrow>
             if data_status dat \<noteq> Some ''successful''
             then ((400, Text ''Transaction not successful''), d)
             else
               (case data_tx_ref dat of
                  None \<Rightarrow> ((500, Text ''Internal Server Error''), d)
                | Some t \<Rightarrow>
                    (case match_order_id t of
                       None \<Rightarrow> ((400, Text ''Invalid transaction reference''), d)
                     | Some orderId \<Rightarrow>
                         (case order_update d (Some orderId) [(''isPaid'', BoolValue True)] of
                            Inl e \<Rightarrow> ((500, Text ''Internal Server Error''), d)
                          | Inr (r, d') \<Rightarrow>
                              ((200, MessageJson ''Order payment updated successfully''), d'))))))"

section \<open>Stripe webhook: \<open>POST /api/webhook\<close>\<close>

record stripe_address =
  line1 :: "string option"
  line2 :: "string option"
  address_city :: "string option"
  address_state :: "string option"
  postal_code :: "string option"
  address_country :: "string option"

record stripe_shipping =
  shipping_name :: "string option"
  shipping_address :: "stripe_address option"

record session =
  shipping_details :: "stripe_shipping option"
  metadata_orderId :: "string option"

record event =
  event_type :: string
  data_object :: session

text \<open>
  \<open>shippingDetails?.address?.line1\<close> is \<open>undefined\<close> when the shipping details or the
  address are missing and \<open>null\<close> when the line is; the filter drops \<open>null\<close> only, and
  \<open>join\<close> prints \<open>undefined\<close> as the empty string.
\<close>

datatype component = Undefined | Null | Str string

definition component_of :: "session \<Rightarrow> (stripe_address \<Rightarrow> string option) \<Rightarrow> component" where
  "component_of s field =
     (case shipping_details s of
        None \<Rightarrow> Undefined
      | Some sd \<Rightarrow>
          (case shipping_address sd of
             None \<Rightarrow> Undefined
           | Some a \<Rightarrow> (case field a of None \<Rightarrow> Null | Some v \<Rightarrow> Str v)))"

definition addressComponents :: "session \<Rightarrow> component list" where
  "addressComponents s =
     map (component_of s) [line1, line2, address_city, address_state, postal_code, address_country]"

fun join :: "string \<Rightarrow> component list \<Rightarrow> string" where
  "join sep [] = []"
| "join sep [c] = (case c of Str v \<Rightarrow> v | _ \<Rightarrow> [])"
| "join sep (c # cs) = (case c of Str v \<Rightarrow> v | _ \<Rightarrow> []) @ sep @ join sep cs"

definition addressString :: "session \<Rightarrow> string" where
  "addressString s = join '', '' (filter (\<lambda>c. c \<noteq> Null) (addressComponents s))"

definition phone_of :: "session \<Rightarrow> string" where
  "phone_of s =
     (case shipping_details s of
        None \<Rightarrow> []
      | Some sd \<Rightarrow> (case shipping_name sd of None \<Rightarrow> [] | Some n \<Rightarrow> n))"

text \<open>
  \<open>order.orderItems.map(async ...)\<close> starts one task per order item; every task issues its
  \<open>findUnique\<close> at once and, when that is answered, the guards and its \<open>update\<close>.  The
  storage serves the outstanding statements in an order of its own: the schedule, a list of
  task indices, each entry serving the statement the task is waiting for.  \<open>Promise.all\<close>
  rejects with the first rejection, which the \<open>catch\<close> prints; the other tasks go on.
\<close>

datatype task =
    AwaitFind order_item
  | AwaitUpdate order_item string int
  | Resolved
  | Rejected error

datatype statement =
    OrderUpdate string
  | ProductFindUnique string
  | ProductUpdate string int

record handler_state =
  database :: db
  tasks :: "task list"
  console_error :: "error option"
  served :: "statement list"

definition reject :: "nat \<Rightarrow> error \<Rightarrow> handler_state \<Rightarrow> handler_state" where
  "reject i e st =
     st\<lparr>tasks := (tasks st)[i := Rejected e],
        console_error := (case console_error st of None \<Rightarrow> Some e | Some e' \<Rightarrow> Some e')\<rparr>"

definition step :: "nat \<Rightarrow> handler_state \<Rightarrow> handler_state" where
  "step i st =
     (if i < length (tasks st) then
        (case tasks st ! i of
           AwaitFind orderItem \<Rightarrow>
             (let st' = st\<lparr>served := served st @ [ProductFindUnique (item_productId orderItem)]\<rparr>
              in case product_findUnique (database st) (item_productId orderItem) of
                   None \<Rightarrow> reject i (WebhookProductNotFound (item_productId orderItem)) st'
                 | Some p \<Rightarrow>
                     if inStock p < item_quantity orderItem
                     then reject i (WebhookNotEnoughStock (item_productId orderItem)) st'
                     else st'\<lparr>tasks := (tasks st)[i := AwaitUpdate orderItem
                                  (item_productId orderItem)
                                  (inStock p - item_quantity orderItem)]\<rparr>)
         | AwaitUpdate orderItem pid v \<Rightarrow>
             (let st' = st\<lparr>served := served st @ [ProductUpdate pid v]\<rparr>
              in case product_update (database st) pid v of
                   Inl e \<Rightarrow> reject i e st'
                 | Inr d' \<Rightarrow> st'\<lparr>database := d', tasks := (tasks st)[i := Resolved]\<rparr>)
         | Resolved \<Rightarrow> st
         | Rejected e \<Rightarrow> st)
      else st)"

definition run :: "nat list \<Rightarrow> handler_state \<Rightarrow> handler_state" where
  "run schedule st = fold step schedule st"

text \<open>
  The handler: verify, then (for \<open>checkout.session.completed\<close>) update the order and start
  the item tasks, all inside \<open>try\<close>; the \<open>catch\<close> prints the error; the answer is 200.  The
  update names the columns \<open>isPaid\<close>, \<open>address\<close> and \<open>phone\<close>.  \<open>order_statement\<close> is
  the statement that reaches the storage: none when the client rejects the call.
\<close>

definition order_statement :: "string option \<Rightarrow> (string \<times> field_value) list \<Rightarrow> statement list" where
  "order_statement oid data =
     (case oid of None \<Rightarrow> [] | Some i \<Rightarrow> if accepted oid data then [OrderUpdate i] else [])"

definition webhook_POST ::
  "(string \<Rightarrow> string \<Rightarrow> string \<Rightarrow> string + event) \<Rightarrow> string \<Rightarrow> string \<Rightarrow> string
     \<Rightarrow> nat list \<Rightarrow> db \<Rightarrow> response \<times> handler_state" where
  "webhook_POST constructEvent req_body signature secret schedule d =
     (let idle = \<lparr>database = d, tasks = [], console_error = None, served = []\<rparr>
      in case constructEvent req_body signature secret of
           Inl msg \<Rightarrow> ((400, Text (''Webhook Error: '' @ msg)), idle)
         | Inr ev \<Rightarrow>
             if event_type ev = ''checkout.session.completed'' then
               (let data = [(''isPaid'', BoolValue True),
                            (''address'', StringValue (addressString (data_object ev))),
                            (''phone'', StringValue (phone_of (data_object ev)))]
                in case order_update d (metadata_orderId (data_object ev)) data of
                     Inl e \<Rightarrow>
                       ((200, NoBody),
                        idle\<lparr>console_error := Some e,
                             served := order_statement (metadata_orderId (data_object ev)) data\<rparr>)
                   | Inr (ord, d') \<Rightarrow>
                       ((200, NoBody),
                        run schedule
                          \<lparr>database = d', tasks = map AwaitFind (orderItems ord),
                           console_error = None,
                           served = order_statement (metadata_orderId (data_object ev)) data\<rparr>))
             else ((200, NoBody), idle))"

section \<open>Observations and example data\<close>

text \<open>What the theorems read off a database, and the rows of the examples.\<close>

definition stock :: "db \<Rightarrow> string \<Rightarrow> int option" where
  "stock d pid = map_option inStock (product_findUnique d pid)"


definition example_shipping :: shipping_details where
  "example_shipping = \<lparr>addressLine1 = ''1 Main St'', addressLine2 = None, city = ''Kigali'',
     state = ''Kigali'', zipCode = ''0000'', country = ''RW'', phoneNumber = ''0780000000''\<rparr>"

definition example_env :: "string \<Rightarrow> string \<Rightarrow> checkout_env" where
  "example_env sid oid = \<lparr>newShippingDetailsId = sid, newOrderId = oid, now = 1730000000,
     flutterwave = (\<lambda>payload. Reply (Some ''success'') None (Some (Some ''https://pay.example/1'')))\<rparr>"

definition example_db :: db where
  "example_db = \<lparr>productTable = [(''P1'', \<lparr>name = ''Shirt'', price = 10, inStock = 5\<rparr>)],
     orderTable = [], shippingDetailsTable = []\<rparr>"


definition paid :: "db \<Rightarrow> string \<Rightarrow> bool option" where
  "paid d oid = map_option isPaid (map_of (orderTable d) oid)"

definition example_constructEvent :: "string \<Rightarrow> string \<Rightarrow> string \<Rightarrow> string + event" where
  "example_constructEvent req_body signature secret =
     (if signature = ''t=1,v1=good'' \<and> secret = ''whsec''
      then Inr \<lparr>event_type = ''checkout.session.completed'',
                data_object = \<lparr>shipping_details = None, metadata_orderId = Some req_body\<rparr>\<rparr>
      else Inl ''No signatures found matching the expected signature for payload.'')"

definition example_order :: "int \<Rightarrow> order" where
  "example_order q = \<lparr>storeId = ''store'', isPaid = False, isSent = False,
     orderItems = [\<lparr>item_productId = ''P1'', item_quantity = q\<rparr>],
     shippingDetailsId = Some ''S1''\<rparr>"

definition example_order_db :: "int \<Rightarrow> int \<Rightarrow> db" where
  "example_order_db s q =
     \<lparr>productTable = [(''P1'', \<lparr>name = ''Shirt'', price = 10, inStock = s\<rparr>)],
      orderTable = [(''O1'', example_order q)],
      shippingDetailsTable = [(''S1'', example_shipping)]\<rparr>"

definition example_paid_db :: "int \<Rightarrow> int \<Rightarrow> db" where
  "example_paid_db s q =
     (example_order_db s q)\<lparr>orderTable := [(''O1'', (example_order q)\<lparr>isPaid := True\<rparr>)]\<rparr>"

definition example_payload :: fw_payload where
  "example_payload = \<lparr>payload_event = Some ''charge.completed'',
     payload_data = Some \<lparr>data_tx_ref = Some ''order_O1_123'', data_status = Some ''successful''\<rparr>\<rparr>"

definition pending_nonneg :: "handler_state \<Rightarrow> bool" where
  "pending_nonneg st =
     (\<forall>t\<in>set (tasks st). case t of AwaitUpdate orderItem pid v \<Rightarrow> 0 \<le> v | _ \<Rightarrow> True)"

definition nonneg_stock :: "db \<Rightarrow> bool" where
  "nonneg_stock d = (\<forall>pid p. product_findUnique d pid = Some p \<longrightarrow> 0 \<le> inStock p)"

definition demand :: "product_data list \<Rightarrow> string \<Rightarrow> int" where
  "demand cart pid = sum_list (map quantity (filter (\<lambda>i. productId i = pid) cart))"

definition line_of :: "db \<Rightarrow> product_data \<Rightarrow> line_item" where
  "line_of d productData =
     (case product_findUnique d (productId productData) of
        Some p \<Rightarrow> \<lparr>li_name = name p, li_quantity = quantity productData,
                   unit_amount = fmul (toNumber (price p)) (Num 100)\<rparr>
      | None \<Rightarrow> \<lparr>li_name = [], li_quantity = quantity productData, unit_amount = NonFinite\<rparr>)"

definition order_row :: "string \<Rightarrow> product_data list \<Rightarrow> string \<Rightarrow> order" where
  "order_row store cart sid =
     \<lparr>storeId = store, isPaid = False, isSent = False,
      orderItems = map (\<lambda>productData. \<lparr>item_productId = productId productData,
                                         item_quantity = quantity productData\<rparr>) cart,
      shippingDetailsId = Some sid\<rparr>"

definition exact_total :: "db \<Rightarrow> product_data list \<Rightarrow> real" where
  "exact_total d cart =
     (\<Sum>i\<leftarrow>cart. case product_findUnique d (productId i) of
                   Some p \<Rightarrow> price p * of_int (quantity i)
                 | None \<Rightarrow> 0)"

definition cents_of :: "line_item \<Rightarrow> int" where
  "cents_of l = (case unit_amount l of Num x \<Rightarrow> \<lfloor>x\<rfloor> | NonFinite \<Rightarrow> 0)"

definition example_cents_db :: db where
  "example_cents_db = \<lparr>productTable = [(''P1'', \<lparr>name = ''Shirt'', price = 11 / 10, inStock = 5\<rparr>)],
     orderTable = [], shippingDetailsTable = []\<rparr>"


definition mark_unpaid :: "db \<Rightarrow> string \<Rightarrow> db" where
  "mark_unpaid d oid =
     (case map_of (orderTable d) oid of
        None \<Rightarrow> d
      | Some r \<Rightarrow> d\<lparr>orderTable := AList.update oid (r\<lparr>isPaid := False\<rparr>) (orderTable d)\<rparr>)"

section \<open>Checkout: stock shortfall\<close>

lemma product_update_Inr:
  assumes "product_update d pid v = Inr d'"
  shows "\<exists>p. product_findUnique d pid = Some p
           \<and> product_findUnique d' = (product_findUnique d)(pid \<mapsto> p\<lparr>inStock := v\<rparr>)
           \<and> orderTable d' = orderTable d \<and> shippingDetailsTable d' = shippingDetailsTable d"
  using assms
  by (auto simp: product_update_def product_findUnique_def update_conv' fun_eq_iff
      split: option.splits)

lemma product_update_found:
  "product_findUnique d pid = Some p \<Longrightarrow> \<exists>d'. product_update d pid v = Inr d'"
  by (simp add: product_update_def product_findUnique_def)

lemma for_products_fails:
  assumes "\<forall>i\<in>set cart. 0 \<le> quantity i"
    and "pd \<in> set cart"
    and "product_findUnique tx (productId pd) = Some p"
    and "inStock p < quantity pd"
  shows "\<exists>e. for_products tx line_items cart = Inl e
           \<and> ((\<exists>n. e = NotEnoughStock n) \<or> (\<exists>i. e = ProductNotFound i))"
  using assms
proof (induction cart arbitrary: tx line_items p)
  case Nil
  then show ?case by simp
next
  case (Cons x xs)
  show ?case
  proof (cases "product_findUnique tx (productId x)")
    case None
    then show ?thesis by simp
  next
    case (Some px)
    show ?thesis
    proof (cases "inStock px < quantity x")
      case True
      with Some show ?thesis by simp
    next
      case False
      obtain tx' where upd: "product_update tx (productId x) (inStock px - quantity x) = Inr tx'"
        using product_update_found[OF Some] by blast
      from product_update_Inr[OF upd] Some
      have look: "product_findUnique tx' =
          (product_findUnique tx)(productId x \<mapsto> px\<lparr>inStock := inStock px - quantity x\<rparr>)"
        by auto
      have pd_xs: "pd \<in> set xs"
      proof (rule ccontr)
        assume "pd \<notin> set xs"
        with Cons.prems(2) have "pd = x" by simp
        with Cons.prems(3,4) Some False show False by simp
      qed
      have qx: "0 \<le> quantity x" using Cons.prems(1) by simp
      obtain p' where p': "product_findUnique tx' (productId pd) = Some p'"
        and less: "inStock p' < quantity pd"
      proof (cases "productId pd = productId x")
        case True
        with Cons.prems(3) Some have "px = p" by simp
        with True look Cons.prems(4) qx that show ?thesis by simp
      next
        case False
        with look Cons.prems(3,4) that show ?thesis by simp
      qed
      have "\<exists>e. for_products tx' (line_items @
                     [\<lparr>li_name = name px, li_quantity = quantity x,
                       unit_amount = fmul (toNumber (price px)) (Num 100)\<rparr>]) xs = Inl e
           \<and> ((\<exists>n. e = NotEnoughStock n) \<or> (\<exists>i. e = ProductNotFound i))"
        using Cons.IH[OF _ pd_xs p' less] Cons.prems(1) by simp
      with Some False upd show ?thesis by simp
    qed
  qed
qed

lemma for_products_not_found_needs_missing:
  assumes "for_products tx line_items cart = Inl (ProductNotFound i)"
  shows "\<exists>pd\<in>set cart. product_findUnique tx (productId pd) = None"
  using assms
proof (induction cart arbitrary: tx line_items)
  case Nil
  then show ?case by simp
next
  case (Cons x xs)
  show ?case
  proof (cases "product_findUnique tx (productId x)")
    case None
    then show ?thesis by simp
  next
    case (Some px)
    show ?thesis
    proof (cases "inStock px < quantity x")
      case True
      with Some Cons.prems show ?thesis by simp
    next
      case False
      obtain tx' where upd: "product_update tx (productId x) (inStock px - quantity x) = Inr tx'"
        using product_update_found[OF Some] by blast
      from product_update_Inr[OF upd] Some
      have look: "product_findUnique tx' =
          (product_findUnique tx)(productId x \<mapsto> px\<lparr>inStock := inStock px - quantity x\<rparr>)"
        by auto
      from Cons.prems Some False upd
      have "\<exists>pd\<in>set xs. product_findUnique tx' (productId pd) = None"
        by (auto dest: Cons.IH)
      then show ?thesis using look by (auto split: if_splits)
    qed
  qed
qed

lemma transaction_Inl: "f d = Inl e \<Longrightarrow> transaction f d = (Inl e, d)"
  by (simp add: transaction_def)

lemma checkout_body_for_products_Inl:
  "for_products tx [] cart = Inl e \<Longrightarrow> checkout_body store cart shipping sid oid tx = Inl e"
  by (simp add: checkout_body_def)

text \<open>
  Claim C2, as amended: when the quantities of a cart are not negative and some item asks for
  more than the stock of its product, the transaction throws and is rolled back, so the
  database after the request is the database before it (no stock changed, no order, order item
  or shipping details created) and the answer is a 400.  The error is the stock error of the
  first item that fails the stock guard, unless an item before it names an unknown product,
  in which case it is the not-found error; when every product of the cart exists it is the
  stock error.
\<close>

theorem checkout_insufficient_stock_rolls_back:
  assumes "\<forall>i\<in>set cart. 0 \<le> quantity i"
    and "pd \<in> set cart"
    and "product_findUnique d (productId pd) = Some p"
    and "inStock p < quantity pd"
  shows "\<exists>e. transaction (checkout_body store cart shipping
                  (newShippingDetailsId env) (newOrderId env)) d = (Inl e, d)
           \<and> checkout_POST env store \<lparr>products = Some cart, shippingDetails = Some shipping\<rparr> d
               = ((400, ErrorJson (message e)), d)
           \<and> ((\<exists>n. e = NotEnoughStock n) \<or> (\<exists>i. e = ProductNotFound i))
           \<and> ((\<forall>i\<in>set cart. product_findUnique d (productId i) \<noteq> None)
                \<longrightarrow> (\<exists>n. e = NotEnoughStock n))"
proof -
  from for_products_fails[OF assms, of "[]"]
  obtain e where loop: "for_products d [] cart = Inl e"
    and kind: "(\<exists>n. e = NotEnoughStock n) \<or> (\<exists>i. e = ProductNotFound i)"
    by blast
  have tx: "transaction (checkout_body store cart shipping
               (newShippingDetailsId env) (newOrderId env)) d = (Inl e, d)"
    by (rule transaction_Inl) (rule checkout_body_for_products_Inl[OF loop])
  have "cart \<noteq> []" using assms(2) by auto
  with tx have post: "checkout_POST env store
       \<lparr>products = Some cart, shippingDetails = Some shipping\<rparr> d
       = ((400, ErrorJson (message e)), d)"
    by (simp add: checkout_POST_def)
  have "(\<forall>i\<in>set cart. product_findUnique d (productId i) \<noteq> None)
          \<longrightarrow> (\<exists>n. e = NotEnoughStock n)"
    using kind loop for_products_not_found_needs_missing[of d "[]" cart] by blast
  with tx post kind show ?thesis by blast
qed

theorem checkout_insufficient_stock_rolls_back_witness:
  "checkout_POST (example_env ''S1'' ''O1'') ''store''
     \<lparr>products = Some [\<lparr>productId = ''P1'', quantity = 10\<rparr>],
      shippingDetails = Some example_shipping\<rparr> example_db
   = ((400, ErrorJson ''Not enough stock for Shirt.''), example_db)"
proof -
  have a: "\<forall>i\<in>set [\<lparr>productId = ''P1'', quantity = 10\<rparr>]. 0 \<le> quantity i" by simp
  have b: "\<lparr>productId = ''P1'', quantity = 10\<rparr> \<in> set [\<lparr>productId = ''P1'', quantity = 10\<rparr>]"
    by simp
  have c: "product_findUnique example_db (productId \<lparr>productId = ''P1'', quantity = 10\<rparr>)
      = Some \<lparr>name = ''Shirt'', price = 10, inStock = 5\<rparr>"
    by (simp add: product_findUnique_def example_db_def)
  have d: "inStock \<lparr>name = ''Shirt'', price = 10, inStock = 5\<rparr>
      < quantity \<lparr>productId = ''P1'', quantity = 10\<rparr>" by simp
  have e: "\<forall>i\<in>set [\<lparr>productId = ''P1'', quantity = 10\<rparr>].
      product_findUnique example_db (productId i) \<noteq> None"
    by (simp add: product_findUnique_def example_db_def)
  from checkout_insufficient_stock_rolls_back[OF a b c d, of "''store''" example_shipping "example_env ''S1'' ''O1''"]
  obtain err where
    1: "transaction (checkout_body ''store'' [\<lparr>productId = ''P1'', quantity = 10\<rparr>] example_shipping
          (newShippingDetailsId (example_env ''S1'' ''O1'')) (newOrderId (example_env ''S1'' ''O1''))) example_db = (Inl err, example_db)"
    and 2: "checkout_POST (example_env ''S1'' ''O1'') ''store''
        \<lparr>products = Some [\<lparr>productId = ''P1'', quantity = 10\<rparr>],
         shippingDetails = Some example_shipping\<rparr> example_db
       = ((400, ErrorJson (message err)), example_db)"
    and 3: "(\<forall>i\<in>set [\<lparr>productId = ''P1'', quantity = 10\<rparr>].
               product_findUnique example_db (productId i) \<noteq> None) \<longrightarrow> (\<exists>n. err = NotEnoughStock n)"
    by blast
  from 3 e obtain n where n: "err = NotEnoughStock n" by blast
  have "transaction (checkout_body ''store'' [\<lparr>productId = ''P1'', quantity = 10\<rparr>] example_shipping
          (newShippingDetailsId (example_env ''S1'' ''O1'')) (newOrderId (example_env ''S1'' ''O1''))) example_db
        = (Inl (NotEnoughStock ''Shirt''), example_db)"
    by (simp add: transaction_def checkout_body_def product_findUnique_def example_db_def)
  with 1 have "err = NotEnoughStock ''Shirt''" by simp
  with 2 show ?thesis by simp
qed

text \<open>
  Claim C2, as stated, fails: a cart whose second item asks for 10 of a product with stock 5
  fails with the not-found error of its first item, not with the stock error.
\<close>

theorem checkout_unknown_product_before_shortfall:
  "product_findUnique example_db ''P1'' = Some \<lparr>name = ''Shirt'', price = 10, inStock = 5\<rparr>
   \<and> checkout_POST (example_env ''S1'' ''O1'') ''store''
       \<lparr>products = Some [\<lparr>productId = ''ghost'', quantity = 1\<rparr>, \<lparr>productId = ''P1'', quantity = 10\<rparr>],
        shippingDetails = Some example_shipping\<rparr> example_db
     = ((400, ErrorJson ''Product with ID ghost not found.''), example_db)
   \<and> transaction (checkout_body ''store''
         [\<lparr>productId = ''ghost'', quantity = 1\<rparr>, \<lparr>productId = ''P1'', quantity = 10\<rparr>]
         example_shipping ''S1'' ''O1'') example_db
     = (Inl (ProductNotFound ''ghost''), example_db)"
  by (simp add: checkout_POST_def transaction_def checkout_body_def product_findUnique_def
      example_db_def example_env_def)

section \<open>Stripe webhook: signature and order update\<close>

lemma step_orderTable [simp]: "orderTable (database (step i st)) = orderTable (database st)"
  by (auto simp: step_def reject_def Let_def product_update_def
      split: task.splits option.splits sum.splits)

lemma step_shippingDetailsTable [simp]:
  "shippingDetailsTable (database (step i st)) = shippingDetailsTable (database st)"
  by (auto simp: step_def reject_def Let_def product_update_def
      split: task.splits option.splits sum.splits)

lemma step_length [simp]: "length (tasks (step i st)) = length (tasks st)"
  by (auto simp: step_def reject_def Let_def split: task.splits option.splits sum.splits)

lemma run_Nil [simp]: "run [] st = st"
  by (simp add: run_def)

lemma run_Cons [simp]: "run (i # schedule) st = run schedule (step i st)"
  by (simp add: run_def)

lemma run_orderTable [simp]: "orderTable (database (run schedule st)) = orderTable (database st)"
  by (induction schedule arbitrary: st) simp_all

lemma run_shippingDetailsTable [simp]:
  "shippingDetailsTable (database (run schedule st)) = shippingDetailsTable (database st)"
  by (induction schedule arbitrary: st) simp_all

lemma run_length [simp]: "length (tasks (run schedule st)) = length (tasks st)"
  by (induction schedule arbitrary: st) simp_all

lemma order_update_Inr:
  assumes "order_update d oid data = Inr (r', d')"
  shows "\<exists>i r. oid = Some i \<and> map_of (orderTable d) i = Some r
           \<and> r' = foldl set_field r data
           \<and> d' = d\<lparr>orderTable := AList.update i r' (orderTable d)\<rparr>"
  using assms by (auto simp: order_update_def split: if_splits option.splits)

lemma webhook_update_rejected:
  "order_update d oid [(''isPaid'', BoolValue True), (''address'', StringValue a),
      (''phone'', StringValue ph)] = Inl ClientValidation"
  by (simp add: order_update_def accepted_def order_fields_def)

lemma webhook_statement_none:
  "order_statement oid [(''isPaid'', BoolValue True), (''address'', StringValue a),
      (''phone'', StringValue ph)] = []"
  by (simp add: order_statement_def accepted_def order_fields_def split: option.splits)

lemma webhook_completed:
  assumes "constructEvent req_body signature secret = Inr ev"
    and "event_type ev = ''checkout.session.completed''"
  shows "webhook_POST constructEvent req_body signature secret schedule d
         = ((200, NoBody),
            \<lparr>database = d, tasks = [], console_error = Some ClientValidation, served = []\<rparr>)"
  using assms
  by (simp add: webhook_POST_def Let_def webhook_update_rejected webhook_statement_none)

lemma webhook_database:
  "database (snd (webhook_POST constructEvent req_body signature secret schedule d)) = d"
  by (simp add: webhook_POST_def Let_def webhook_update_rejected split: sum.splits)

text \<open>
  Claim C6: when the signature does not verify, that is when \<open>constructEvent\<close> throws, the
  handler answers 400 with the \<open>Webhook Error\<close> text before any storage statement: the
  database is the one it was given, no statement was served, no task was started.
\<close>

theorem webhook_invalid_signature:
  assumes "constructEvent req_body signature secret = Inl msg"
  shows "webhook_POST constructEvent req_body signature secret schedule d
         = ((400, Text (''Webhook Error: '' @ msg)),
            \<lparr>database = d, tasks = [], console_error = None, served = []\<rparr>)"
  using assms by (simp add: webhook_POST_def)

lemmas example_defs = example_constructEvent_def example_order_def example_order_db_def
  example_db_def example_shipping_def

lemmas webhook_defs = webhook_POST_def order_statement_def order_update_def accepted_def
  order_fields_def run_def step_def reject_def
  product_findUnique_def product_update_def Let_def addressString_def addressComponents_def
  component_of_def phone_of_def

theorem webhook_invalid_signature_witness:
  "webhook_POST example_constructEvent ''O1'' ''t=1,v1=forged'' ''whsec'' [0, 0] (example_order_db 3 2)
   = ((400, Text ''Webhook Error: No signatures found matching the expected signature for payload.''),
      \<lparr>database = example_order_db 3 2, tasks = [], console_error = None, served = []\<rparr>)"
proof -
  have "example_constructEvent ''O1'' ''t=1,v1=forged'' ''whsec''
      = Inl ''No signatures found matching the expected signature for payload.''"
    by (simp add: example_constructEvent_def)
  from webhook_invalid_signature[where constructEvent = example_constructEvent, OF this]
  show ?thesis by simp
qed

text \<open>
  Claim C5, as amended: when the order id of a \<open>checkout.session.completed\<close> event matches
  no order, the handler does not fail: the order update throws, the \<open>catch\<close> prints the
  error, and the answer is 200.  No order or product row is changed and no item task is
  started.
\<close>

theorem webhook_unknown_order:
  assumes "constructEvent req_body signature secret = Inr ev"
    and "event_type ev = ''checkout.session.completed''"
    and "metadata_orderId (data_object ev) = Some oid"
    and "map_of (orderTable d) oid = None"
  shows "fst (webhook_POST constructEvent req_body signature secret schedule d) = (200, NoBody)
         \<and> database (snd (webhook_POST constructEvent req_body signature secret schedule d)) = d
         \<and> console_error (snd (webhook_POST constructEvent req_body signature secret schedule d))
             \<noteq> None
         \<and> tasks (snd (webhook_POST constructEvent req_body signature secret schedule d)) = []"
  using webhook_completed[where constructEvent = constructEvent, OF assms(1,2)] by simp

theorem webhook_unknown_order_witness:
  "fst (webhook_POST example_constructEvent ''O2'' ''t=1,v1=good'' ''whsec'' [0, 0] example_db)
     = (200, NoBody)
   \<and> database (snd (webhook_POST example_constructEvent ''O2'' ''t=1,v1=good'' ''whsec'' [0, 0]
         example_db)) = example_db
   \<and> console_error (snd (webhook_POST example_constructEvent ''O2'' ''t=1,v1=good'' ''whsec'' [0, 0]
         example_db)) \<noteq> None
   \<and> tasks (snd (webhook_POST example_constructEvent ''O2'' ''t=1,v1=good'' ''whsec'' [0, 0]
         example_db)) = []"
proof -
  let ?ev = "\<lparr>event_type = ''checkout.session.completed'',
              data_object = \<lparr>shipping_details = None, metadata_orderId = Some ''O2''\<rparr>\<rparr>"
  have 1: "example_constructEvent ''O2'' ''t=1,v1=good'' ''whsec'' = Inr ?ev"
    by (simp add: example_constructEvent_def)
  have 2: "event_type ?ev = ''checkout.session.completed''" by simp
  have 3: "metadata_orderId (data_object ?ev) = Some ''O2''" by simp
  have 4: "map_of (orderTable example_db) ''O2'' = None" by (simp add: example_db_def)
  from webhook_unknown_order[where constructEvent = example_constructEvent, OF 1 2 3 4]
  show ?thesis .
qed

text \<open>
  Claim C5, as stated, fails: for an order id that matches no order the handler does not
  fail, it answers 200.
\<close>

theorem webhook_unknown_order_acknowledged:
  "map_of (orderTable (example_order_db 3 2)) ''ghost'' = None
   \<and> fst (webhook_POST example_constructEvent ''ghost'' ''t=1,v1=good'' ''whsec'' []
           (example_order_db 3 2)) = (200, NoBody)"
  by (simp add: webhook_defs example_defs)

lemma paid_mark_unpaid:
  "paid d oid = Some True \<Longrightarrow> paid (mark_unpaid d oid) oid = Some False"
  by (auto simp: paid_def mark_unpaid_def update_conv')

text \<open>
  Claim C1, as amended: a \<open>checkout.session.completed\<close> notification delivered for an order
  that is already paid is acknowledged with 200 and the order stays paid.  The handler has no
  already-paid check and takes no short cut: the delivery starts the same tasks, prints the
  same error and is served the same statements as a delivery for the same order not yet
  paid.
\<close>

theorem webhook_redelivery_acknowledged:
  assumes "constructEvent b s k = Inr ev"
    and "event_type ev = ''checkout.session.completed''"
    and "metadata_orderId (data_object ev) = Some oid"
    and "paid d oid = Some True"
  shows "fst (webhook_POST constructEvent b s k schedule d) = (200, NoBody)
         \<and> paid (database (snd (webhook_POST constructEvent b s k schedule d))) oid = Some True
         \<and> paid (mark_unpaid d oid) oid = Some False
         \<and> tasks (snd (webhook_POST constructEvent b s k schedule d))
             = tasks (snd (webhook_POST constructEvent b s k schedule (mark_unpaid d oid)))
         \<and> console_error (snd (webhook_POST constructEvent b s k schedule d))
             = console_error (snd (webhook_POST constructEvent b s k schedule (mark_unpaid d oid)))
         \<and> served (snd (webhook_POST constructEvent b s k schedule d))
             = served (snd (webhook_POST constructEvent b s k schedule (mark_unpaid d oid)))"
  using webhook_completed[where constructEvent = constructEvent, OF assms(1,2)] assms(4)
    paid_mark_unpaid[OF assms(4)] by simp

theorem webhook_redelivery_acknowledged_witness:
  "fst (webhook_POST example_constructEvent ''O1'' ''t=1,v1=good'' ''whsec'' [0, 0]
         (example_paid_db 6 2)) = (200, NoBody)
   \<and> paid (database (snd (webhook_POST example_constructEvent ''O1'' ''t=1,v1=good'' ''whsec''
         [0, 0] (example_paid_db 6 2)))) ''O1'' = Some True
   \<and> paid (mark_unpaid (example_paid_db 6 2) ''O1'') ''O1'' = Some False
   \<and> console_error (snd (webhook_POST example_constructEvent ''O1'' ''t=1,v1=good'' ''whsec'' [0, 0]
         (example_paid_db 6 2)))
       = console_error (snd (webhook_POST example_constructEvent ''O1'' ''t=1,v1=good'' ''whsec''
           [0, 0] (mark_unpaid (example_paid_db 6 2) ''O1'')))"
proof -
  let ?ev = "\<lparr>event_type = ''checkout.session.completed'',
              data_object = \<lparr>shipping_details = None, metadata_orderId = Some ''O1''\<rparr>\<rparr>"
  have 1: "example_constructEvent ''O1'' ''t=1,v1=good'' ''whsec'' = Inr ?ev"
    by (simp add: example_constructEvent_def)
  have 2: "event_type ?ev = ''checkout.session.completed''" by simp
  have 3: "metadata_orderId (data_object ?ev) = Some ''O1''" by simp
  have 4: "paid (example_paid_db 6 2) ''O1'' = Some True"
    by (simp add: paid_def example_paid_db_def)
  from webhook_redelivery_acknowledged[where constructEvent = example_constructEvent,
      OF 1 2 3 4] 4
  show ?thesis by simp
qed

text \<open>
  Claim C1, as stated, fails: the handler does not detect that the order is paid.  Of the
  two deliveries below for a paid order, the second takes no short cut on the paid flag: like
  the first, and like a delivery for the same order not yet paid, it calls the order update,
  which throws, and prints the error.  The stock, 8, is the same after each.
\<close>

theorem webhook_redelivery_no_paid_check:
  "paid (example_paid_db 8 2) ''O1'' = Some True
   \<and> stock (example_paid_db 8 2) ''P1'' = Some 8
   \<and> stock (database (snd (webhook_POST example_constructEvent ''O1'' ''t=1,v1=good'' ''whsec'' [0, 0]
         (example_paid_db 8 2)))) ''P1'' = Some 8
   \<and> stock (database (snd (webhook_POST example_constructEvent ''O1'' ''t=1,v1=good'' ''whsec'' [0, 0]
         (database (snd (webhook_POST example_constructEvent ''O1'' ''t=1,v1=good'' ''whsec'' [0, 0]
           (example_paid_db 8 2))))))) ''P1'' = Some 8
   \<and> console_error (snd (webhook_POST example_constructEvent ''O1'' ''t=1,v1=good'' ''whsec'' [0, 0]
         (database (snd (webhook_POST example_constructEvent ''O1'' ''t=1,v1=good'' ''whsec'' [0, 0]
           (example_paid_db 8 2)))))) = Some ClientValidation
   \<and> console_error (snd (webhook_POST example_constructEvent ''O1'' ''t=1,v1=good'' ''whsec'' [0, 0]
         (example_order_db 8 2))) = Some ClientValidation"
  by (simp add: webhook_defs example_defs example_paid_db_def paid_def stock_def)

text \<open>
  Claim C7 at a concrete order: an unpaid order of 3 of a product with stock 1.  The order
  update of the notification throws before \<open>isPaid\<close> is written and before any item is looked
  at: the order stays unpaid, the console holds the error of the update, not a shortfall, and
  the answer is 200.
\<close>

theorem webhook_shortfall_order_stays_unpaid:
  "paid (example_order_db 1 3) ''O1'' = Some False
   \<and> webhook_POST example_constructEvent ''O1'' ''t=1,v1=good'' ''whsec'' [0]
         (example_order_db 1 3)
       = ((200, NoBody), \<lparr>database = example_order_db 1 3, tasks = [],
            console_error = Some ClientValidation, served = []\<rparr>)
   \<and> paid (database (snd (webhook_POST example_constructEvent ''O1'' ''t=1,v1=good'' ''whsec'' [0]
         (example_order_db 1 3)))) ''O1'' = Some False
   \<and> stock (example_order_db 1 3) ''P1'' = Some 1"
  by (simp add: webhook_defs example_defs paid_def stock_def product_findUnique_def)

section \<open>Payment status never reverts\<close>

lemma for_products_tables:
  "for_products tx line_items cart = Inr (tx', line_items') \<Longrightarrow>
     orderTable tx' = orderTable tx \<and> shippingDetailsTable tx' = shippingDetailsTable tx"
proof (induction cart arbitrary: tx line_items)
  case Nil
  then show ?case by simp
next
  case (Cons x xs)
  then show ?case
    by (auto split: option.splits if_splits sum.splits dest!: product_update_Inr)
qed

lemma for_products_nonneg:
  "for_products tx line_items cart = Inr (tx', line_items') \<Longrightarrow> nonneg_stock tx \<Longrightarrow> nonneg_stock tx'"
proof (induction cart arbitrary: tx line_items)
  case Nil
  then show ?case by simp
next
  case (Cons x xs)
  from Cons.prems(1) obtain p tx1 where
    p: "product_findUnique tx (productId x) = Some p" "\<not> inStock p < quantity x"
    and upd: "product_update tx (productId x) (inStock p - quantity x) = Inr tx1"
    and rest: "for_products tx1 (line_items @
                     [\<lparr>li_name = name p, li_quantity = quantity x,
                       unit_amount = fmul (toNumber (price p)) (Num 100)\<rparr>]) xs = Inr (tx', line_items')"
    by (auto split: option.splits if_splits sum.splits)
  from product_update_Inr[OF upd] p
  have "product_findUnique tx1 =
          (product_findUnique tx)(productId x \<mapsto> p\<lparr>inStock := inStock p - quantity x\<rparr>)"
    by auto
  with Cons.prems(2) p have "nonneg_stock tx1"
    by (auto simp: nonneg_stock_def)
  with Cons.IH[OF rest] show ?case .
qed

lemma shippingDetails_create_Inr:
  "shippingDetails_create d sid row = Inr d' \<Longrightarrow>
     productTable d' = productTable d \<and> orderTable d' = orderTable d
     \<and> map_of (shippingDetailsTable d) sid = None
     \<and> map_of (shippingDetailsTable d') = (map_of (shippingDetailsTable d))(sid \<mapsto> row)"
  by (auto simp: shippingDetails_create_def update_conv' split: option.splits)

lemma order_create_Inr:
  "order_create d oid row = Inr d' \<Longrightarrow>
     productTable d' = productTable d \<and> shippingDetailsTable d' = shippingDetailsTable d
     \<and> map_of (orderTable d) oid = None
     \<and> map_of (orderTable d') = (map_of (orderTable d))(oid \<mapsto> row)"
  by (auto simp: order_create_def update_conv' split: if_splits)

lemma checkout_body_Inr:
  assumes "checkout_body store cart shipping sid oid d = Inr (result, d')"
  shows "\<exists>tx1 line_items.
           for_products d [] cart = Inr (tx1, line_items)
           \<and> productTable d' = productTable tx1
           \<and> map_of (orderTable d) oid = None
           \<and> map_of (orderTable d') = (map_of (orderTable d))(oid \<mapsto> created_order result)
           \<and> map_of (shippingDetailsTable d) sid = None
           \<and> map_of (shippingDetailsTable d') = (map_of (shippingDetailsTable d))(sid \<mapsto> shipping)
           \<and> created_id result = oid
           \<and> isPaid (created_order result) = False
           \<and> totalAmount result = fdiv (reduce_total line_items) (Num 100)"
proof -
  from assms obtain tx1 line_items tx2 tx3 where
    loop: "for_products d [] cart = Inr (tx1, line_items)"
    and ship: "shippingDetails_create tx1 sid shipping = Inr tx2"
    and ord: "order_create tx2 oid (created_order result) = Inr tx3"
    and res: "d' = tx3" "created_id result = oid" "isPaid (created_order result) = False"
      "totalAmount result = fdiv (reduce_total line_items) (Num 100)"
    by (auto simp: checkout_body_def Let_def split: sum.splits if_splits prod.splits)
  from for_products_tables[OF loop] shippingDetails_create_Inr[OF ship] order_create_Inr[OF ord]
    loop res
  show ?thesis by auto
qed

lemma checkout_POST_db:
  "snd (checkout_POST env store req d) = d
   \<or> (\<exists>cart shipping result.
         checkout_body store cart shipping (newShippingDetailsId env) (newOrderId env) d
           = Inr (result, snd (checkout_POST env store req d)))"
  by (auto simp: checkout_POST_def transaction_def Let_def
      split: option.splits sum.splits prod.splits fw_reply.splits)



lemma order_update_products:
  "order_update d oid data = Inr (r, d') \<Longrightarrow> productTable d' = productTable d"
  by (auto dest!: order_update_Inr)

lemma paid_run [simp]: "paid (database (run schedule st)) oid = paid (database st) oid"
  by (simp add: paid_def)









section \<open>Stock never negative\<close>

lemma nonneg_stock_cong: "productTable d' = productTable d \<Longrightarrow> nonneg_stock d' = nonneg_stock d"
  by (simp add: nonneg_stock_def product_findUnique_def)

lemma nonneg_checkout:
  assumes "nonneg_stock d"
  shows "nonneg_stock (snd (checkout_POST env store req d))"
proof -
  from checkout_POST_db[of env store req d] show ?thesis
  proof
    assume "snd (checkout_POST env store req d) = d"
    with assms show ?thesis by simp
  next
    assume "\<exists>cart shipping result.
         checkout_body store cart shipping (newShippingDetailsId env) (newOrderId env) d
           = Inr (result, snd (checkout_POST env store req d))"
    then obtain cart shipping result where
      "checkout_body store cart shipping (newShippingDetailsId env) (newOrderId env) d
           = Inr (result, snd (checkout_POST env store req d))" by blast
    from checkout_body_Inr[OF this] obtain tx1 line_items where
      loop: "for_products d [] cart = Inr (tx1, line_items)"
      and tbl: "productTable (snd (checkout_POST env store req d)) = productTable tx1"
      by blast
    from for_products_nonneg[OF loop assms] nonneg_stock_cong[OF tbl] show ?thesis by simp
  qed
qed

lemma pending_nonneg_update:
  assumes "pending_nonneg st" and "tasks st' = (tasks st)[i := t]"
    and "case t of AwaitUpdate orderItem pid v \<Rightarrow> 0 \<le> v | _ \<Rightarrow> True"
  shows "pending_nonneg st'"
proof -
  have "set (tasks st') \<subseteq> insert t (set (tasks st))"
    unfolding assms(2) by (rule set_update_subset_insert)
  with assms(1,3) show ?thesis
    unfolding pending_nonneg_def by blast
qed

lemma step_AwaitFind:
  assumes "i < length (tasks st)" and "tasks st ! i = AwaitFind it"
  shows "database (step i st) = database st"
    and "tasks (step i st) = (tasks st)[i :=
          (case product_findUnique (database st) (item_productId it) of
             None \<Rightarrow> Rejected (WebhookProductNotFound (item_productId it))
           | Some p \<Rightarrow>
               if inStock p < item_quantity it
               then Rejected (WebhookNotEnoughStock (item_productId it))
               else AwaitUpdate it (item_productId it) (inStock p - item_quantity it))]"
  using assms by (simp_all add: step_def Let_def reject_def split: option.splits)

lemma step_AwaitUpdate:
  assumes "i < length (tasks st)" and "tasks st ! i = AwaitUpdate it pid v"
  shows "database (step i st) =
           (case product_update (database st) pid v of Inl e \<Rightarrow> database st | Inr d' \<Rightarrow> d')"
    and "tasks (step i st) = (tasks st)[i :=
          (case product_update (database st) pid v of Inl e \<Rightarrow> Rejected e | Inr d' \<Rightarrow> Resolved)]"
  using assms by (simp_all add: step_def Let_def reject_def split: sum.splits)

lemma step_finished:
  assumes "i < length (tasks st) \<longrightarrow> tasks st ! i = Resolved \<or> (\<exists>e. tasks st ! i = Rejected e)"
  shows "step i st = st"
  using assms by (auto simp: step_def)

lemma step_nonneg:
  assumes "nonneg_stock (database st)" and "pending_nonneg st"
  shows "nonneg_stock (database (step i st)) \<and> pending_nonneg (step i st)"
proof (cases "i < length (tasks st)")
  case False
  then have "step i st = st" by (simp add: step_def)
  with assms show ?thesis by simp
next
  case True
  show ?thesis
  proof (cases "tasks st ! i")
    case (AwaitFind it)
    note s = step_AwaitFind[OF True AwaitFind]
    have "pending_nonneg (step i st)"
      by (rule pending_nonneg_update[OF assms(2) s(2)]) (simp split: option.splits)
    with s(1) assms(1) show ?thesis by simp
  next
    case (AwaitUpdate it pid v)
    note s = step_AwaitUpdate[OF True AwaitUpdate]
    from True AwaitUpdate have "AwaitUpdate it pid v \<in> set (tasks st)"
      by (metis nth_mem)
    with assms(2) have v: "0 \<le> v" unfolding pending_nonneg_def by fastforce
    have pend: "pending_nonneg (step i st)"
      by (rule pending_nonneg_update[OF assms(2) s(2)]) (simp split: sum.splits)
    have "nonneg_stock (database (step i st))"
    proof (cases "product_update (database st) pid v")
      case (Inl e)
      with s(1) assms(1) show ?thesis by simp
    next
      case (Inr d')
      from product_update_Inr[OF Inr] obtain p where
        "product_findUnique d' = (product_findUnique (database st))(pid \<mapsto> p\<lparr>inStock := v\<rparr>)"
        by blast
      with v assms(1) have "nonneg_stock d'"
        unfolding nonneg_stock_def by (simp split: if_splits)
      with s(1) Inr show ?thesis by simp
    qed
    with pend show ?thesis by simp
  next
    case Resolved
    then have "step i st = st" by (intro step_finished) simp
    with assms show ?thesis by simp
  next
    case (Rejected e)
    then have "step i st = st" by (intro step_finished) simp
    with assms show ?thesis by simp
  qed
qed

lemma run_nonneg:
  "nonneg_stock (database st) \<Longrightarrow> pending_nonneg st \<Longrightarrow> nonneg_stock (database (run schedule st))"
  by (induction schedule arbitrary: st) (simp_all add: step_nonneg)

lemma pending_nonneg_initial:
  "pending_nonneg \<lparr>database = d, tasks = map AwaitFind items, console_error = c, served = sv\<rparr>"
  by (auto simp: pending_nonneg_def)

lemma run_tasks_nonneg:
  "nonneg_stock d \<Longrightarrow>
   nonneg_stock (database (run schedule
      \<lparr>database = d, tasks = map AwaitFind items, console_error = c, served = sv\<rparr>))"
  by (rule run_nonneg) (simp_all add: pending_nonneg_initial)

lemma nonneg_webhook:
  assumes "nonneg_stock d"
  shows "nonneg_stock (database (snd (webhook_POST constructEvent b s k schedule d)))"
  using assms by (simp add: webhook_database)

lemma paymentWebhook_db:
  "snd (paymentWebhook payload d) = d
   \<or> (\<exists>oid r. order_update d (Some oid) [(''isPaid'', BoolValue True)]
          = Inr (r, snd (paymentWebhook payload d)))"
  by (auto simp: paymentWebhook_def split: option.splits sum.splits)

lemma nonneg_paymentWebhook:
  assumes "nonneg_stock d"
  shows "nonneg_stock (snd (paymentWebhook payload d))"
proof -
  have "productTable (snd (paymentWebhook payload d)) = productTable d"
    using paymentWebhook_db[of payload d] order_update_products by metis
  from nonneg_stock_cong[OF this] assms show ?thesis by simp
qed

lemma step_shortfall:
  assumes "i < length (tasks st)" and "tasks st ! i = AwaitFind orderItem"
    and "product_findUnique (database st) (item_productId orderItem) = Some p"
    and "inStock p - item_quantity orderItem < 0"
  shows "database (step i st) = database st
         \<and> tasks (step i st) ! i = Rejected (WebhookNotEnoughStock (item_productId orderItem))"
  using assms by (simp add: step_def Let_def reject_def)

lemma transaction_rollback:
  "isl (fst (transaction f d)) \<Longrightarrow> snd (transaction f d) = d"
  by (auto simp: transaction_def split: sum.splits)

text \<open>
  Claim C9: no product stock is negative after a request to the checkout route, at any moment
  of a run of the Stripe webhook (every schedule, complete or not) or after the Flutterwave
  webhook, when none was negative before.  A decrement that would go below zero is not
  written: the checkout loop throws at that item and the transaction that throws leaves the
  database as it was; the webhook task is rejected and leaves the database as it was.  The
  item tasks of the Stripe webhook, started on any list of order items and served in any
  order, leave no stock negative either.
\<close>

theorem stock_never_negative:
  "(nonneg_stock d \<longrightarrow>
      nonneg_stock (snd (checkout_POST env store req d))
      \<and> nonneg_stock (database (snd (webhook_POST constructEvent b s k schedule d)))
      \<and> nonneg_stock (snd (paymentWebhook payload d)))
   \<and> (product_findUnique tx (productId pd) = Some p \<and> inStock p - quantity pd < 0 \<longrightarrow>
        for_products tx line_items (pd # rest) = Inl (NotEnoughStock (name p)))
   \<and> (isl (fst (transaction (checkout_body store cart shipping sid noid) d)) \<longrightarrow>
        snd (transaction (checkout_body store cart shipping sid noid) d) = d)
   \<and> (i < length (tasks st) \<and> tasks st ! i = AwaitFind orderItem
       \<and> product_findUnique (database st) (item_productId orderItem) = Some p'
       \<and> inStock p' - item_quantity orderItem < 0 \<longrightarrow>
        database (step i st) = database st
        \<and> tasks (step i st) ! i = Rejected (WebhookNotEnoughStock (item_productId orderItem)))
   \<and> (nonneg_stock d \<longrightarrow>
        nonneg_stock (database (run schedule'
          \<lparr>database = d, tasks = map AwaitFind items, console_error = None, served = sv\<rparr>)))"
proof (intro conjI impI)
  assume "nonneg_stock d"
  then show "nonneg_stock (database (run schedule'
          \<lparr>database = d, tasks = map AwaitFind items, console_error = None, served = sv\<rparr>))"
    by (rule run_tasks_nonneg)
next
  assume "nonneg_stock d"
  then show "nonneg_stock (snd (checkout_POST env store req d))"
    and "nonneg_stock (database (snd (webhook_POST constructEvent b s k schedule d)))"
    and "nonneg_stock (snd (paymentWebhook payload d))"
    by (rule nonneg_checkout nonneg_webhook nonneg_paymentWebhook)+
next
  assume "product_findUnique tx (productId pd) = Some p \<and> inStock p - quantity pd < 0"
  then show "for_products tx line_items (pd # rest) = Inl (NotEnoughStock (name p))"
    by simp
next
  assume "isl (fst (transaction (checkout_body store cart shipping sid noid) d))"
  then show "snd (transaction (checkout_body store cart shipping sid noid) d) = d"
    by (rule transaction_rollback)
next
  assume a: "i < length (tasks st) \<and> tasks st ! i = AwaitFind orderItem
       \<and> product_findUnique (database st) (item_productId orderItem) = Some p'
       \<and> inStock p' - item_quantity orderItem < 0"
  then have "i < length (tasks st)" "tasks st ! i = AwaitFind orderItem"
    "product_findUnique (database st) (item_productId orderItem) = Some p'"
    "inStock p' - item_quantity orderItem < 0" by blast+
  from step_shortfall[OF this]
  show "database (step i st) = database st"
    and "tasks (step i st) ! i = Rejected (WebhookNotEnoughStock (item_productId orderItem))"
    by simp_all
qed

theorem stock_never_negative_witness:
  "nonneg_stock (example_order_db 1 3)
   \<and> nonneg_stock (snd (checkout_POST (example_env ''S2'' ''O2'') ''store''
        \<lparr>products = Some [\<lparr>productId = ''P1'', quantity = 3\<rparr>],
         shippingDetails = Some example_shipping\<rparr> (example_order_db 1 3)))
   \<and> nonneg_stock (database (snd (webhook_POST example_constructEvent ''O1'' ''t=1,v1=good''
        ''whsec'' [0] (example_order_db 1 3))))
   \<and> nonneg_stock (snd (paymentWebhook example_payload (example_order_db 1 3)))
   \<and> for_products (example_order_db 1 3) [] [\<lparr>productId = ''P1'', quantity = 3\<rparr>]
       = Inl (NotEnoughStock ''Shirt'')
   \<and> snd (transaction (checkout_body ''store'' [\<lparr>productId = ''P1'', quantity = 3\<rparr>]
        example_shipping ''S2'' ''O2'') (example_order_db 1 3)) = example_order_db 1 3
   \<and> database (step 0 \<lparr>database = example_order_db 1 3,
          tasks = [AwaitFind \<lparr>item_productId = ''P1'', item_quantity = 3\<rparr>],
          console_error = None, served = []\<rparr>) = example_order_db 1 3
   \<and> tasks (step 0 \<lparr>database = example_order_db 1 3,
          tasks = [AwaitFind \<lparr>item_productId = ''P1'', item_quantity = 3\<rparr>],
          console_error = None, served = []\<rparr>) ! 0 = Rejected (WebhookNotEnoughStock ''P1'')
   \<and> nonneg_stock (database (run [0, 1, 0, 1]
        \<lparr>database = example_order_db 1 3,
         tasks = map AwaitFind [\<lparr>item_productId = ''P1'', item_quantity = 1\<rparr>,
                                \<lparr>item_productId = ''P1'', item_quantity = 1\<rparr>],
         console_error = None, served = []\<rparr>))"
proof -
  let ?d = "example_order_db 1 3"
  let ?p = "\<lparr>name = ''Shirt'', price = 10, inStock = 1\<rparr>"
  let ?pd = "\<lparr>productId = ''P1'', quantity = 3\<rparr>"
  let ?it = "\<lparr>item_productId = ''P1'', item_quantity = 3\<rparr>"
  let ?st = "\<lparr>database = ?d, tasks = [AwaitFind ?it], console_error = None, served = []\<rparr>"
  have 1: "nonneg_stock ?d"
    by (simp add: nonneg_stock_def product_findUnique_def example_order_db_def)
  have 2: "product_findUnique ?d (productId ?pd) = Some ?p \<and> inStock ?p - quantity ?pd < 0"
    by (simp add: product_findUnique_def example_order_db_def)
  have 3: "isl (fst (transaction (checkout_body ''store'' [?pd] example_shipping ''S2'' ''O2'') ?d))"
    by (simp add: transaction_def checkout_body_def product_findUnique_def example_order_db_def)
  have 4: "0 < length (tasks ?st) \<and> tasks ?st ! 0 = AwaitFind ?it
       \<and> product_findUnique (database ?st) (item_productId ?it) = Some ?p
       \<and> inStock ?p - item_quantity ?it < 0"
    by (simp add: product_findUnique_def example_order_db_def)
  from stock_never_negative[where constructEvent = example_constructEvent and d = ?d
      and env = "example_env ''S2'' ''O2''" and store = "''store''"
      and req = "\<lparr>products = Some [?pd], shippingDetails = Some example_shipping\<rparr>"
      and b = "''O1''" and s = "''t=1,v1=good''" and k = "''whsec''" and schedule = "[0]"
      and payload = example_payload and tx = ?d and pd = ?pd and p = ?p and line_items = "[]"
      and rest = "[]" and cart = "[?pd]" and shipping = example_shipping and sid = "''S2''"
      and noid = "''O2''" and i = 0 and st = ?st and orderItem = ?it and p' = ?p
      and items = "[\<lparr>item_productId = ''P1'', item_quantity = 1\<rparr>,
                    \<lparr>item_productId = ''P1'', item_quantity = 1\<rparr>]" and sv = "[]"
      and schedule' = "[0, 1, 0, 1]"] 1 2 3 4
  show ?thesis by simp
qed

section \<open>Checkout: a cart that is in stock\<close>

lemma demand_Cons:
  "demand (x # xs) pid = (if productId x = pid then quantity x else 0) + demand xs pid"
  by (simp add: demand_def)

lemma demand_nonneg: "\<forall>i\<in>set cart. 0 \<le> quantity i \<Longrightarrow> 0 \<le> demand cart pid"
  by (induction cart) (auto simp: demand_Cons demand_def)

lemma for_products_succeeds:
  assumes "\<forall>i\<in>set cart. 0 \<le> quantity i"
    and "\<forall>i\<in>set cart. \<exists>p. product_findUnique tx (productId i) = Some p
            \<and> demand cart (productId i) \<le> inStock p"
  shows "\<exists>tx'. for_products tx line_items cart = Inr (tx', line_items @ map (line_of tx) cart)
           \<and> (\<forall>pid. product_findUnique tx' pid
                 = map_option (\<lambda>p. p\<lparr>inStock := inStock p - demand cart pid\<rparr>)
                     (product_findUnique tx pid))
           \<and> orderTable tx' = orderTable tx
           \<and> shippingDetailsTable tx' = shippingDetailsTable tx"
  using assms
proof (induction cart arbitrary: tx line_items)
  case Nil
  show ?case by (simp add: demand_def option.map_ident)
next
  case (Cons x xs)
  from Cons.prems(2) obtain p where p: "product_findUnique tx (productId x) = Some p"
    and dem: "demand (x # xs) (productId x) \<le> inStock p" by auto
  have nn: "\<forall>i\<in>set xs. 0 \<le> quantity i" and qx: "0 \<le> quantity x"
    using Cons.prems(1) by simp_all
  from dem demand_nonneg[OF nn, of "productId x"] have guard: "\<not> inStock p < quantity x"
    by (simp add: demand_Cons)
  from product_update_found[OF p] obtain tx1 where
    upd: "product_update tx (productId x) (inStock p - quantity x) = Inr tx1" by blast
  from product_update_Inr[OF upd] p
  have look: "product_findUnique tx1 =
        (product_findUnique tx)(productId x \<mapsto> p\<lparr>inStock := inStock p - quantity x\<rparr>)"
    and tabs: "orderTable tx1 = orderTable tx" "shippingDetailsTable tx1 = shippingDetailsTable tx"
    by auto
  have pre: "\<forall>i\<in>set xs. \<exists>p'. product_findUnique tx1 (productId i) = Some p'
            \<and> demand xs (productId i) \<le> inStock p'"
  proof
    fix i assume i: "i \<in> set xs"
    with Cons.prems(2) obtain pi where pi: "product_findUnique tx (productId i) = Some pi"
      and di: "demand (x # xs) (productId i) \<le> inStock pi" by auto
    show "\<exists>p'. product_findUnique tx1 (productId i) = Some p' \<and> demand xs (productId i) \<le> inStock p'"
    proof (cases "productId i = productId x")
      case True
      with pi p have "pi = p" by simp
      with True di look show ?thesis by (simp add: demand_Cons)
    next
      case False
      with pi di look show ?thesis by (simp add: demand_Cons)
    qed
  qed
  let ?li = "line_items @ [\<lparr>li_name = name p, li_quantity = quantity x,
                       unit_amount = fmul (toNumber (price p)) (Num 100)\<rparr>]"
  from Cons.IH[OF nn pre, of ?li] obtain tx' where
    loop: "for_products tx1 ?li xs = Inr (tx', ?li @ map (line_of tx1) xs)"
    and eff: "\<forall>pid. product_findUnique tx' pid
                 = map_option (\<lambda>p. p\<lparr>inStock := inStock p - demand xs pid\<rparr>)
                     (product_findUnique tx1 pid)"
    and tabs': "orderTable tx' = orderTable tx1" "shippingDetailsTable tx' = shippingDetailsTable tx1"
    by blast
  have lines: "map (line_of tx1) xs = map (line_of tx) xs"
    using look p by (auto simp: line_of_def)
  have first: "line_of tx x = \<lparr>li_name = name p, li_quantity = quantity x,
                       unit_amount = fmul (toNumber (price p)) (Num 100)\<rparr>"
    using p by (simp add: line_of_def)
  have res: "for_products tx line_items (x # xs) = Inr (tx', line_items @ map (line_of tx) (x # xs))"
    using p guard upd loop lines first by simp
  have "product_findUnique tx' pid
          = map_option (\<lambda>p. p\<lparr>inStock := inStock p - demand (x # xs) pid\<rparr>)
              (product_findUnique tx pid)" for pid
    using eff look p by (cases "pid = productId x") (simp_all add: demand_Cons)
  with res tabs tabs' show ?case by auto
qed

lemma checkout_body_succeeds:
  assumes "cart \<noteq> []"
    and "\<forall>i\<in>set cart. 0 \<le> quantity i"
    and "\<forall>i\<in>set cart. \<exists>p. product_findUnique d (productId i) = Some p
            \<and> demand cart (productId i) \<le> inStock p"
    and "map_of (shippingDetailsTable d) sid = None"
    and "map_of (orderTable d) oid = None"
    and "\<forall>(k, r)\<in>set (orderTable d). shippingDetailsId r \<noteq> Some sid"
  shows "\<exists>d'. checkout_body store cart shipping sid oid d
           = Inr (\<lparr>created_id = oid, created_order = order_row store cart sid,
                   totalAmount = fdiv (reduce_total (map (line_of d) cart)) (Num 100)\<rparr>, d')
           \<and> (\<forall>pid. product_findUnique d' pid
                 = map_option (\<lambda>p. p\<lparr>inStock := inStock p - demand cart pid\<rparr>)
                     (product_findUnique d pid))
           \<and> map_of (orderTable d') = (map_of (orderTable d))(oid \<mapsto> order_row store cart sid)
           \<and> map_of (shippingDetailsTable d')
               = (map_of (shippingDetailsTable d))(sid \<mapsto> shipping)"
proof -
  from for_products_succeeds[OF assms(2,3), of "[]"] obtain tx1 where
    loop: "for_products d [] cart = Inr (tx1, map (line_of d) cart)"
    and eff: "\<forall>pid. product_findUnique tx1 pid
                 = map_option (\<lambda>p. p\<lparr>inStock := inStock p - demand cart pid\<rparr>)
                     (product_findUnique d pid)"
    and tabs: "orderTable tx1 = orderTable d" "shippingDetailsTable tx1 = shippingDetailsTable d"
    by auto
  let ?tx2 = "tx1\<lparr>shippingDetailsTable := AList.update sid shipping (shippingDetailsTable tx1)\<rparr>"
  have ship: "shippingDetails_create tx1 sid shipping = Inr ?tx2"
    using assms(4) tabs by (simp add: shippingDetails_create_def)
  let ?row = "order_row store cart sid"
  let ?tx3 = "?tx2\<lparr>orderTable := AList.update oid ?row (orderTable ?tx2)\<rparr>"
  have exists: "\<not> list_ex (\<lambda>i. map_of (productTable ?tx2) (item_productId i) = None) (orderItems ?row)"
  proof -
    have "map_of (productTable tx1) (productId i) \<noteq> None" if "i \<in> set cart" for i
      using that assms(3) eff[rule_format, of "productId i"]
      by (auto simp: product_findUnique_def)
    then show ?thesis by (auto simp: list_ex_iff order_row_def)
  qed
  have uniq: "\<not> list_ex (\<lambda>(k, r). shippingDetailsId r \<noteq> None
                \<and> shippingDetailsId r = shippingDetailsId ?row) (orderTable ?tx2)"
    using assms(6) tabs by (auto simp: list_ex_iff order_row_def)
  have ord: "order_create ?tx2 oid ?row = Inr ?tx3"
    using assms(5) tabs exists uniq by (simp add: order_create_def)
  have len: "length (map (line_of d) cart) \<noteq> 0" using assms(1) by simp
  have body: "checkout_body store cart shipping sid oid d
           = Inr (\<lparr>created_id = oid, created_order = ?row,
                   totalAmount = fdiv (reduce_total (map (line_of d) cart)) (Num 100)\<rparr>, ?tx3)"
    unfolding checkout_body_def using loop len ship ord
    by (simp add: order_row_def Let_def)
  have "\<forall>pid. product_findUnique ?tx3 pid
                 = map_option (\<lambda>p. p\<lparr>inStock := inStock p - demand cart pid\<rparr>)
                     (product_findUnique d pid)"
    using eff by (simp add: product_findUnique_def)
  moreover have "map_of (orderTable ?tx3) = (map_of (orderTable d))(oid \<mapsto> ?row)"
    using tabs by (simp add: update_conv')
  moreover have "map_of (shippingDetailsTable ?tx3)
               = (map_of (shippingDetailsTable d))(sid \<mapsto> shipping)"
    using tabs by (simp add: update_conv')
  ultimately show ?thesis using body by blast
qed

section \<open>A purchase: checkout, then the notification\<close>

lemmas checkout_defs = checkout_POST_def transaction_def checkout_body_def
  shippingDetails_create_def order_create_def Let_def

text \<open>
  Claim C4 at a concrete purchase: 2 of a product with stock 5 are checked out (stock 3), and
  the \<open>checkout.session.completed\<close> notification for the order is delivered.  The order
  update throws, so no item task runs: the stock stays 3 and the order unpaid.  The purchase
  has taken the quantity once.
\<close>

theorem purchase_webhook_leaves_stock:
  "stock example_db ''P1'' = Some 5
   \<and> fst (checkout_POST (example_env ''S1'' ''O1'') ''store''
         \<lparr>products = Some [\<lparr>productId = ''P1'', quantity = 2\<rparr>],
          shippingDetails = Some example_shipping\<rparr> example_db)
       = (200, UrlJson (Some ''https://pay.example/1''))
   \<and> snd (checkout_POST (example_env ''S1'' ''O1'') ''store''
         \<lparr>products = Some [\<lparr>productId = ''P1'', quantity = 2\<rparr>],
          shippingDetails = Some example_shipping\<rparr> example_db) = example_order_db 3 2
   \<and> webhook_POST example_constructEvent ''O1'' ''t=1,v1=good'' ''whsec'' [0, 0]
         (example_order_db 3 2)
       = ((200, NoBody), \<lparr>database = example_order_db 3 2, tasks = [],
            console_error = Some ClientValidation, served = []\<rparr>)
   \<and> stock (example_order_db 3 2) ''P1'' = Some 3
   \<and> paid (example_order_db 3 2) ''O1'' = Some False"
  by (simp add: checkout_defs webhook_defs example_defs example_env_def product_findUnique_def
      product_update_def paid_def stock_def)

section \<open>Rounding to a double\<close>

lemma bit_length_pos: "0 < n \<Longrightarrow> 0 < bit_length n"
  by (subst bit_length.simps) simp

lemma bit_length_nonpos: "n \<le> 0 \<Longrightarrow> bit_length n = 0"
  by (subst bit_length.simps) simp

lemma bit_length_bounds:
  "0 < n \<Longrightarrow> 2 ^ (bit_length n - 1) \<le> n \<and> n < 2 ^ bit_length n"
proof (induction n rule: bit_length.induct)
  case (1 n)
  have bl: "bit_length n = Suc (bit_length (n div 2))"
    using "1.prems" by (subst bit_length.simps) simp
  show ?case
  proof (cases "n div 2 = 0")
    case True
    with "1.prems" have "n = 1" by presburger
    with bl True show ?thesis by (simp add: bit_length_nonpos)
  next
    case False
    with "1.prems" have pos: "0 < n div 2" by presburger
    with "1.IH" "1.prems" have ih: "2 ^ (bit_length (n div 2) - 1) \<le> n div 2"
      "n div 2 < 2 ^ bit_length (n div 2)" by simp_all
    from bit_length_pos[OF pos] obtain b where b: "bit_length (n div 2) = Suc b"
      by (cases "bit_length (n div 2)") simp_all
    from ih b have "2 * 2 ^ b \<le> 2 * (n div 2)" "2 * (n div 2) + 2 \<le> 2 * (2 * 2 ^ b)" by simp_all
    moreover have "2 * (n div 2) \<le> n" "n \<le> 2 * (n div 2) + 1" by presburger+
    ultimately show ?thesis using bl b by simp
  qed
qed

lemma pow2_powi: "pow2 e = 2 powi e"
  by (simp add: pow2_def power_int_def field_simps)

lemma pow2_pos: "0 < pow2 e"
  by (simp add: pow2_powi)

lemma pow2_add: "pow2 (a + b) = pow2 a * pow2 b"
  by (simp add: pow2_powi power_int_add)

lemma pow2_less_iff: "pow2 a < pow2 b \<longleftrightarrow> a < b"
proof
  assume "a < b"
  then show "pow2 a < pow2 b" by (simp add: pow2_powi power_int_strict_increasing)
next
  assume l: "pow2 a < pow2 b"
  show "a < b"
  proof (rule ccontr)
    assume "\<not> a < b"
    then have "b \<le> a" by simp
    then have "pow2 b \<le> pow2 a" by (simp add: pow2_powi power_int_increasing)
    with l show False by simp
  qed
qed

lemma pow2_nat: "pow2 (int n) = 2 ^ n"
  by (simp add: pow2_def)

lemma pow2_neg_nat: "pow2 (- int n) = 1 / 2 ^ n"
  by (simp add: pow2_powi power_int_minus field_simps)

lemma exponent_of_bounds:
  assumes "x \<noteq> 0"
  shows "pow2 (exponent_of x) \<le> \<bar>x\<bar> \<and> \<bar>x\<bar> < pow2 (exponent_of x + 1)"
proof (cases "1 \<le> \<bar>x\<bar>")
  case True
  let ?k = "\<lfloor>\<bar>x\<bar>\<rfloor>"
  from True have k: "0 < ?k" by simp
  from bit_length_pos[OF k] obtain b where b: "bit_length ?k = Suc b"
    by (cases "bit_length ?k") simp_all
  from bit_length_bounds[OF k] b have lo: "2 ^ b \<le> ?k" and hi: "?k < 2 ^ Suc b" by simp_all
  have e: "exponent_of x = int b" using True b by (simp add: exponent_of_def)
  from lo have "(of_int (2 ^ b) :: real) \<le> of_int ?k" by (simp only: of_int_le_iff)
  then have "(2::real) ^ b \<le> of_int ?k" by simp
  also have "\<dots> \<le> \<bar>x\<bar>" by simp
  finally have 1: "pow2 (int b) \<le> \<bar>x\<bar>" by (simp add: pow2_nat)
  from hi have "?k + 1 \<le> 2 ^ Suc b" by simp
  then have "(of_int (?k + 1) :: real) \<le> of_int (2 ^ Suc b)" by (simp only: of_int_le_iff)
  then have "of_int (?k + 1) \<le> (2::real) ^ Suc b" by simp
  moreover have "\<bar>x\<bar> < of_int (?k + 1)" by linarith
  ultimately have "\<bar>x\<bar> < 2 ^ Suc b" by linarith
  then have 2: "\<bar>x\<bar> < pow2 (int b + 1)"
    using pow2_nat[of "Suc b"] by (simp add: add.commute)
  from 1 2 e show ?thesis by simp
next
  case False
  let ?y = "1 / \<bar>x\<bar>"
  let ?c = "\<lceil>?y\<rceil>"
  from False assms have x: "0 < \<bar>x\<bar>" "\<bar>x\<bar> < 1" by simp_all
  then have y: "1 < ?y" by simp
  then have c: "0 < ?c - 1" by linarith
  from bit_length_pos[OF c] obtain b where b: "bit_length (?c - 1) = Suc b"
    by (cases "bit_length (?c - 1)") simp_all
  from bit_length_bounds[OF c] b have lo: "2 ^ b \<le> ?c - 1" and hi: "?c - 1 < 2 ^ Suc b"
    by simp_all
  have e: "exponent_of x = - int (Suc b)" using False b by (simp add: exponent_of_def)
  from hi have "?c \<le> 2 ^ Suc b" by simp
  then have "(of_int ?c :: real) \<le> of_int (2 ^ Suc b)" by (simp only: of_int_le_iff)
  then have "of_int ?c \<le> (2::real) ^ Suc b" by simp
  moreover have "?y \<le> of_int ?c" by simp
  ultimately have "?y \<le> 2 ^ Suc b" by linarith
  with x have "1 \<le> 2 ^ Suc b * \<bar>x\<bar>" by (simp add: field_simps)
  then have 1: "pow2 (- int (Suc b)) \<le> \<bar>x\<bar>"
    unfolding pow2_neg_nat by (simp add: field_simps)
  from lo have "(of_int (2 ^ b) :: real) \<le> of_int (?c - 1)" by (simp only: of_int_le_iff)
  then have "(2::real) ^ b \<le> of_int (?c - 1)" by simp
  moreover have "of_int (?c - 1) < ?y" by linarith
  ultimately have "2 ^ b < ?y" by linarith
  with x have "2 ^ b * \<bar>x\<bar> < 1" by (simp add: field_simps)
  then have "\<bar>x\<bar> < 1 / 2 ^ b" by (simp add: field_simps)
  then have 2: "\<bar>x\<bar> < pow2 (- int (Suc b) + 1)"
    using pow2_neg_nat[of b] by simp
  from 1 2 e show ?thesis by simp
qed

lemma exponent_of_unique:
  assumes "pow2 k \<le> \<bar>x\<bar>" and "\<bar>x\<bar> < pow2 (k + 1)"
  shows "exponent_of x = k"
proof -
  from assms(1) pow2_pos[of k] have "0 < \<bar>x\<bar>" by linarith
  then have "x \<noteq> 0" by simp
  from exponent_of_bounds[OF this] assms
  have "pow2 (exponent_of x) < pow2 (k + 1)" "pow2 k < pow2 (exponent_of x + 1)" by linarith+
  then show ?thesis by (simp add: pow2_less_iff)
qed

lemma round_half_even_near:
  assumes "\<bar>m - of_int n\<bar> < 1 / 2"
  shows "round_half_even m = n"
proof -
  from assms have "\<lfloor>m\<rfloor> = n \<or> \<lfloor>m\<rfloor> = n - 1" by linarith
  then show ?thesis
  proof
    assume f: "\<lfloor>m\<rfloor> = n"
    with assms have "m - of_int \<lfloor>m\<rfloor> < 1 / 2" by linarith
    with f show ?thesis by (simp add: round_half_even_def Let_def)
  next
    assume f: "\<lfloor>m\<rfloor> = n - 1"
    then have "of_int \<lfloor>m\<rfloor> = (of_int n :: real) - 1" by simp
    with assms have "1 / 2 < m - of_int \<lfloor>m\<rfloor>" "\<not> m - of_int \<lfloor>m\<rfloor> < 1 / 2" by linarith+
    with f show ?thesis by (simp add: round_half_even_def Let_def)
  qed
qed

lemma fl_normal:
  assumes "pow2 (e + 52) \<le> \<bar>x\<bar>" and "\<bar>x\<bar> < pow2 (e + 53)"
    and "- 1074 \<le> e" and "e \<le> 969"
    and "\<bar>x / pow2 e - of_int m\<bar> < 1 / 2"
  shows "fl x = Num (of_int m * pow2 e)"
proof -
  from assms(1) pow2_pos[of "e + 52"] have "0 < \<bar>x\<bar>" by linarith
  then have x0: "x \<noteq> 0" by simp
  have "exponent_of x = e + 52"
    using assms(1,2) by (intro exponent_of_unique) (simp_all add: add.assoc)
  with assms(3) have e: "max (exponent_of x - 52) (- 1074) = e" by simp
  have r: "round_half_even (x / pow2 e) = m" by (rule round_half_even_near[OF assms(5)])
  have "\<bar>x\<bar> / pow2 e < pow2 53"
    using assms(2) pow2_add[of e 53] pow2_pos[of e] by (simp add: field_simps)
  moreover have "\<bar>x / pow2 e\<bar> = \<bar>x\<bar> / pow2 e" using pow2_pos[of e] by simp
  ultimately have "\<bar>of_int m :: real\<bar> < pow2 53 + 1 / 2" using assms(5) by linarith
  moreover have "1 \<le> pow2 53" by (simp add: pow2_def)
  ultimately have "\<bar>of_int m :: real\<bar> \<le> 2 * pow2 53" by linarith
  then have "\<bar>of_int m :: real\<bar> * pow2 e \<le> 2 * pow2 53 * pow2 e"
    using pow2_pos[of e] by (intro mult_right_mono) simp_all
  then have "\<bar>of_int m * pow2 e\<bar> \<le> 2 * pow2 53 * pow2 e"
    using pow2_pos[of e] by (simp add: abs_mult)
  also have "\<dots> = pow2 (e + 54)"
    using pow2_add[of e 54] pow2_add[of 53 1] by (simp add: pow2_def)
  also have "\<dots> < pow2 1024" using assms(4) by (simp add: pow2_less_iff)
  finally have "\<not> 2 ^ 1024 \<le> \<bar>of_int m * pow2 e\<bar>" using pow2_nat[of 1024] by simp
  with x0 e r show ?thesis by (simp add: fl_def Let_def)
qed

lemma fl_int:
  assumes "\<bar>n\<bar> < 2 ^ 53"
  shows "fl (of_int n) = Num (of_int n)"
proof (cases "n = 0")
  case True
  then show ?thesis by (simp add: fl_def)
next
  case False
  let ?x = "of_int n :: real"
  from False have x0: "?x \<noteq> 0" by simp
  define E where "E = exponent_of ?x"
  from exponent_of_bounds[OF x0] have lo: "pow2 E \<le> \<bar>?x\<bar>" and hi: "\<bar>?x\<bar> < pow2 (E + 1)"
    by (simp_all add: E_def)
  from assms have "(of_int \<bar>n\<bar> :: real) < of_int (2 ^ 53)" by (simp only: of_int_less_iff)
  then have "\<bar>?x\<bar> < 2 ^ 53" by simp
  with lo have "pow2 E < pow2 53" using pow2_nat[of 53] by simp
  then have E53: "E < 53" by (simp add: pow2_less_iff)
  from False have "1 \<le> \<bar>n\<bar>" by linarith
  then have "(of_int 1 :: real) \<le> of_int \<bar>n\<bar>" by (simp only: of_int_le_iff)
  then have "1 \<le> \<bar>?x\<bar>" by simp
  with hi have "pow2 0 < pow2 (E + 1)" by (simp add: pow2_def)
  then have E0: "0 \<le> E" by (simp add: pow2_less_iff)
  define k where "k = nat (52 - E)"
  have pk: "pow2 (E - 52) = 1 / 2 ^ k"
    using E53 pow2_neg_nat[of k] by (simp add: k_def)
  have m: "?x / pow2 (E - 52) = of_int (n * 2 ^ k)" by (simp add: pk)
  have "fl ?x = Num (of_int (n * 2 ^ k) * pow2 (E - 52))"
  proof (rule fl_normal)
    show "pow2 (E - 52 + 52) \<le> \<bar>?x\<bar>" using lo by simp
    have "E - 52 + 53 = E + 1" by simp
    then show "\<bar>?x\<bar> < pow2 (E - 52 + 53)" using hi by (simp only:)
    show "- 1074 \<le> E - 52" using E0 by simp
    show "E - 52 \<le> 969" using E53 by simp
    show "\<bar>?x / pow2 (E - 52) - of_int (n * 2 ^ k)\<bar> < 1 / 2" unfolding m by simp
  qed
  then show ?thesis by (simp add: pk)
qed

section \<open>The total of whole-number prices\<close>

lemma fl_of_int_mult:
  "\<bar>a * b\<bar> < 2 ^ 53 \<Longrightarrow> fl (of_int a * of_int b) = Num (of_int (a * b))"
  using fl_int[of "a * b"] by simp

lemma foldl_exact:
  assumes "\<forall>l\<in>set ls. unit_amount l = Num (of_int (cents_of l)) \<and> 0 \<le> cents_of l
             \<and> 0 \<le> li_quantity l"
    and "0 \<le> a"
    and "a + (\<Sum>l\<leftarrow>ls. cents_of l * li_quantity l) < 2 ^ 53"
  shows "foldl (\<lambda>total item. fadd total (fmul (unit_amount item) (Num (of_int (li_quantity item)))))
           (Num (of_int a)) ls
         = Num (of_int (a + (\<Sum>l\<leftarrow>ls. cents_of l * li_quantity l)))"
  using assms
proof (induction ls arbitrary: a)
  case Nil
  then show ?case by simp
next
  case (Cons l ls)
  let ?t = "cents_of l * li_quantity l"
  from Cons.prems(1) have u: "unit_amount l = Num (of_int (cents_of l))"
    and c: "0 \<le> cents_of l" and q: "0 \<le> li_quantity l" by simp_all
  have rest: "0 \<le> (\<Sum>l\<leftarrow>ls. cents_of l * li_quantity l)"
    using Cons.prems(1) by (intro sum_list_nonneg) auto
  from c q have t: "0 \<le> ?t" by simp
  from Cons.prems(2,3) rest t have b1: "\<bar>?t\<bar> < 2 ^ 53" and b2: "\<bar>a + ?t\<bar> < 2 ^ 53"
    by simp_all
  have m: "fmul (unit_amount l) (Num (of_int (li_quantity l))) = Num (of_int ?t)"
    unfolding u using fl_of_int_mult[OF b1] by simp
  have "fadd (Num (of_int a)) (Num (of_int ?t)) = fl (of_int (a + ?t))" by simp
  also have "\<dots> = Num (of_int (a + ?t))" by (rule fl_int[OF b2])
  finally have s: "fadd (Num (of_int a)) (fmul (unit_amount l) (Num (of_int (li_quantity l))))
      = Num (of_int (a + ?t))" using m by simp
  have "foldl (\<lambda>total item. fadd total (fmul (unit_amount item) (Num (of_int (li_quantity item)))))
           (Num (of_int (a + ?t))) ls
         = Num (of_int (a + ?t + (\<Sum>l\<leftarrow>ls. cents_of l * li_quantity l)))"
    using Cons.prems t by (intro Cons.IH) (simp_all add: add.assoc)
  with s show ?case by (simp add: add.assoc)
qed

lemma line_of_whole:
  assumes "product_findUnique d (productId i) = Some p"
    and "price p \<in> \<int>" and "0 \<le> price p" and "100 * price p < 2 ^ 53"
  shows "unit_amount (line_of d i) = Num (of_int (cents_of (line_of d i)))"
    and "of_int (cents_of (line_of d i)) = 100 * price p"
    and "0 \<le> cents_of (line_of d i)"
    and "li_quantity (line_of d i) = quantity i"
proof -
  from assms(2) obtain c where c: "price p = of_int c" by (auto elim: Ints_cases)
  with assms(3) have c0: "0 \<le> c" by simp
  from assms(4) c have "(of_int (100 * c) :: real) < of_int (2 ^ 53)" by simp
  then have c1: "100 * c < 2 ^ 53" by (simp only: of_int_less_iff)
  with c0 have b1: "\<bar>c\<bar> < 2 ^ 53" and b2: "\<bar>c * 100\<bar> < 2 ^ 53" by simp_all
  have "toNumber (price p) = Num (of_int c)" unfolding toNumber_def c by (rule fl_int[OF b1])
  then have "fmul (toNumber (price p)) (Num 100) = fl (of_int c * of_int 100)" by simp
  also have "\<dots> = Num (of_int (c * 100))" by (rule fl_of_int_mult[OF b2])
  finally have u: "unit_amount (line_of d i) = Num (of_int (c * 100))"
    using assms(1) by (simp add: line_of_def)
  have "\<lfloor>(of_int (c * 100) :: real)\<rfloor> = c * 100" by (rule floor_of_int)
  with u have ce: "cents_of (line_of d i) = c * 100" by (simp add: cents_of_def del: of_int_mult)
  show "unit_amount (line_of d i) = Num (of_int (cents_of (line_of d i)))" using u ce by simp
  show "of_int (cents_of (line_of d i)) = 100 * price p" using ce c by simp
  show "0 \<le> cents_of (line_of d i)" using ce c0 by simp
  show "li_quantity (line_of d i) = quantity i" using assms(1) by (simp add: line_of_def)
qed

lemma total_exact:
  assumes "\<forall>i\<in>set cart. 0 \<le> quantity i"
    and "\<forall>i\<in>set cart. \<exists>p. product_findUnique d (productId i) = Some p
            \<and> price p \<in> \<int> \<and> 0 \<le> price p \<and> 100 * price p < 2 ^ 53"
    and "100 * exact_total d cart < 2 ^ 53"
  shows "fdiv (reduce_total (map (line_of d) cart)) (Num 100) = Num (exact_total d cart)"
proof -
  let ?ls = "map (line_of d) cart"
  let ?S = "\<Sum>l\<leftarrow>?ls. cents_of l * li_quantity l"
  have each: "unit_amount (line_of d i) = Num (of_int (cents_of (line_of d i)))
      \<and> 0 \<le> cents_of (line_of d i) \<and> 0 \<le> li_quantity (line_of d i)
      \<and> of_int (cents_of (line_of d i) * li_quantity (line_of d i))
          = 100 * (case product_findUnique d (productId i) of
                     Some p \<Rightarrow> price p * of_int (quantity i) | None \<Rightarrow> 0)"
    if "i \<in> set cart" for i
  proof -
    from assms(2) that obtain p where p: "product_findUnique d (productId i) = Some p"
      "price p \<in> \<int>" "0 \<le> price p" "100 * price p < 2 ^ 53" by blast
    from line_of_whole[OF p] assms(1) that p(1) show ?thesis by simp
  qed
  have "(of_int ?S :: real) = 100 * exact_total d cart"
    using each unfolding exact_total_def
    by (induction cart) (simp_all add: algebra_simps)
  then have S: "(of_int ?S :: real) = 100 * exact_total d cart" .
  have whole: "exact_total d cart \<in> \<int>"
    unfolding exact_total_def using assms(2)
    by (induction cart) (auto split: option.splits)
  then obtain T where T: "exact_total d cart = of_int T" by (auto elim: Ints_cases)
  from S T have "(of_int ?S :: real) = of_int (100 * T)" by simp
  then have ST: "?S = 100 * T" by (simp only: of_int_eq_iff)
  from assms(3) S have "(of_int ?S :: real) < of_int (2 ^ 53)" by simp
  then have "?S < 2 ^ 53" by (simp only: of_int_less_iff)
  then have bound: "0 + ?S < 2 ^ 53" by simp
  have nonneg: "0 \<le> ?S" using each by (intro sum_list_nonneg) auto
  have "reduce_total ?ls = Num (of_int (0 + ?S))"
    unfolding reduce_total_def
    using foldl_exact[of ?ls 0, OF _ _ bound] each by simp
  then have "fdiv (reduce_total ?ls) (Num 100) = fl (of_int ?S / 100)" by simp
  also have "of_int ?S / (100::real) = of_int T" unfolding ST by simp
  also have "fl (of_int T) = Num (of_int T)"
    using nonneg bound ST by (intro fl_int) simp
  finally show ?thesis using T by simp
qed

section \<open>Checkout: success, stock and total\<close>

lemma checkout_POST_success:
  assumes "cart \<noteq> []"
    and "transaction (checkout_body store cart shipping
            (newShippingDetailsId env) (newOrderId env)) d = (Inr result, d')"
    and "flutterwave env = (\<lambda>payload. Reply (Some ''success'') msg (Some link))"
  shows "checkout_POST env store \<lparr>products = Some cart, shippingDetails = Some shipping\<rparr> d
         = ((200, UrlJson link), d')"
  using assms by (simp add: checkout_POST_def Let_def)

lemma stock_after:
  "\<forall>pid. product_findUnique d' pid
      = map_option (\<lambda>p. p\<lparr>inStock := inStock p - f pid\<rparr>) (product_findUnique d pid) \<Longrightarrow>
   stock d' pid = map_option (\<lambda>v. v - f pid) (stock d pid)"
  by (simp add: stock_def option.map_comp comp_def)

text \<open>
  Claim C3, as amended: for every non-empty cart of non-negative quantities in which, for
  each product, the quantities of the items that name it add up to at most its stock (with
  fresh ids and a processor that answers success), the transaction commits and the request
  is answered with the payment link; each product's stock afterwards is its stock before
  minus the quantity requested of it.  The returned total is computed in double-precision
  floating point, as (the sum of (price * 100) * quantity) / 100; it equals the exact sum of
  price * quantity when the prices are whole numbers and the amounts stay below \<open>2^53\<close>.
\<close>

theorem checkout_in_stock_succeeds:
  assumes "cart \<noteq> []"
    and "\<forall>i\<in>set cart. 0 \<le> quantity i"
    and "\<forall>i\<in>set cart. \<exists>p. product_findUnique d (productId i) = Some p
            \<and> demand cart (productId i) \<le> inStock p"
    and "map_of (shippingDetailsTable d) (newShippingDetailsId env) = None"
    and "map_of (orderTable d) (newOrderId env) = None"
    and "\<forall>(k, r)\<in>set (orderTable d). shippingDetailsId r \<noteq> Some (newShippingDetailsId env)"
    and "flutterwave env = (\<lambda>payload. Reply (Some ''success'') msg (Some link))"
  shows "\<exists>result d'.
           transaction (checkout_body store cart shipping
              (newShippingDetailsId env) (newOrderId env)) d = (Inr result, d')
           \<and> checkout_POST env store \<lparr>products = Some cart, shippingDetails = Some shipping\<rparr> d
               = ((200, UrlJson link), d')
           \<and> (\<forall>pid. stock d' pid = map_option (\<lambda>v. v - demand cart pid) (stock d pid))
           \<and> totalAmount result = fdiv (reduce_total (map (line_of d) cart)) (Num 100)
           \<and> ((\<forall>i\<in>set cart. \<exists>p. product_findUnique d (productId i) = Some p
                   \<and> price p \<in> \<int> \<and> 0 \<le> price p \<and> 100 * price p < 2 ^ 53)
                \<and> 100 * exact_total d cart < 2 ^ 53
                \<longrightarrow> totalAmount result = Num (exact_total d cart))"
proof -
  let ?sid = "newShippingDetailsId env" and ?oid = "newOrderId env"
  let ?result = "\<lparr>created_id = ?oid, created_order = order_row store cart ?sid,
                   totalAmount = fdiv (reduce_total (map (line_of d) cart)) (Num 100)\<rparr>"
  from checkout_body_succeeds[OF assms(1-6), of store shipping] obtain d' where
    body: "checkout_body store cart shipping ?sid ?oid d = Inr (?result, d')"
    and eff: "\<forall>pid. product_findUnique d' pid
                 = map_option (\<lambda>p. p\<lparr>inStock := inStock p - demand cart pid\<rparr>)
                     (product_findUnique d pid)"
    by blast
  from body have tx: "transaction (checkout_body store cart shipping ?sid ?oid) d
      = (Inr ?result, d')" by (simp add: transaction_def)
  note post = checkout_POST_success[OF assms(1) tx assms(7)]
  have st: "\<forall>pid. stock d' pid = map_option (\<lambda>v. v - demand cart pid) (stock d pid)"
    using stock_after[OF eff] by simp
  have "(\<forall>i\<in>set cart. \<exists>p. product_findUnique d (productId i) = Some p
                   \<and> price p \<in> \<int> \<and> 0 \<le> price p \<and> 100 * price p < 2 ^ 53)
                \<and> 100 * exact_total d cart < 2 ^ 53
                \<longrightarrow> totalAmount ?result = Num (exact_total d cart)"
    using total_exact[OF assms(2)] by simp
  with tx post st show ?thesis by (intro exI[of _ ?result] exI[of _ d']) simp
qed

theorem checkout_in_stock_succeeds_witness:
  "checkout_POST (example_env ''S1'' ''O1'') ''store''
      \<lparr>products = Some [\<lparr>productId = ''P1'', quantity = 2\<rparr>],
       shippingDetails = Some example_shipping\<rparr> example_db
    = ((200, UrlJson (Some ''https://pay.example/1'')),
       snd (transaction (checkout_body ''store'' [\<lparr>productId = ''P1'', quantity = 2\<rparr>]
              example_shipping ''S1'' ''O1'') example_db))
   \<and> stock example_db ''P1'' = Some 5
   \<and> stock (snd (transaction (checkout_body ''store'' [\<lparr>productId = ''P1'', quantity = 2\<rparr>]
              example_shipping ''S1'' ''O1'') example_db)) ''P1'' = Some 3
   \<and> totalAmount (projr (fst (transaction (checkout_body ''store''
              [\<lparr>productId = ''P1'', quantity = 2\<rparr>] example_shipping ''S1'' ''O1'') example_db)))
       = Num 20"
proof -
  let ?cart = "[\<lparr>productId = ''P1'', quantity = 2\<rparr>]"
  let ?env = "example_env ''S1'' ''O1''"
  have 1: "?cart \<noteq> []" by simp
  have 2: "\<forall>i\<in>set ?cart. 0 \<le> quantity i" by simp
  have 3: "\<forall>i\<in>set ?cart. \<exists>p. product_findUnique example_db (productId i) = Some p
            \<and> demand ?cart (productId i) \<le> inStock p"
    by (simp add: product_findUnique_def example_db_def demand_def)
  have 4: "map_of (shippingDetailsTable example_db) (newShippingDetailsId ?env) = None"
    by (simp add: example_db_def)
  have 5: "map_of (orderTable example_db) (newOrderId ?env) = None"
    by (simp add: example_db_def)
  have 6: "\<forall>(k, r)\<in>set (orderTable example_db).
      shippingDetailsId r \<noteq> Some (newShippingDetailsId ?env)"
    by (simp add: example_db_def)
  have 7: "flutterwave ?env
      = (\<lambda>payload. Reply (Some ''success'') None (Some (Some ''https://pay.example/1'')))"
    by (simp add: example_env_def)
  have whole: "\<forall>i\<in>set ?cart. \<exists>p. product_findUnique example_db (productId i) = Some p
                   \<and> price p \<in> \<int> \<and> 0 \<le> price p \<and> 100 * price p < 2 ^ 53"
    by (simp add: product_findUnique_def example_db_def)
  have ex: "exact_total example_db ?cart = 20"
    by (simp add: exact_total_def product_findUnique_def example_db_def)
  have s5: "stock example_db ''P1'' = Some 5"
    by (simp add: stock_def product_findUnique_def example_db_def)
  have dem: "demand ?cart ''P1'' = 2" by (simp add: demand_def)
  from checkout_in_stock_succeeds[OF 1 2 3 4 5 6 7, of "''store''" example_shipping]
  obtain result d' where
    tx: "transaction (checkout_body ''store'' ?cart example_shipping
            (newShippingDetailsId ?env) (newOrderId ?env)) example_db = (Inr result, d')"
    and post: "checkout_POST ?env ''store''
        \<lparr>products = Some ?cart, shippingDetails = Some example_shipping\<rparr> example_db
        = ((200, UrlJson (Some ''https://pay.example/1'')), d')"
    and st: "\<forall>pid. stock d' pid = map_option (\<lambda>v. v - demand ?cart pid) (stock example_db pid)"
    and tot: "(\<forall>i\<in>set ?cart. \<exists>p. product_findUnique example_db (productId i) = Some p
                   \<and> price p \<in> \<int> \<and> 0 \<le> price p \<and> 100 * price p < 2 ^ 53)
                \<and> 100 * exact_total example_db ?cart < 2 ^ 53
                \<longrightarrow> totalAmount result = Num (exact_total example_db ?cart)"
    by blast
  from tot whole ex have "totalAmount result = Num 20" by simp
  moreover from st s5 dem have "stock d' ''P1'' = Some 3" by simp
  moreover from tx have "transaction (checkout_body ''store'' ?cart example_shipping
      ''S1'' ''O1'') example_db = (Inr result, d')" by (simp add: example_env_def)
  ultimately show ?thesis using post s5 by simp
qed

text \<open>
  Claim C3, as stated, fails: in the cart below each item asks for 3 of a product with stock
  5, and the request fails with the stock error at the second item (the first has already
  taken 3 inside the transaction); nothing is written.
\<close>

theorem checkout_same_product_twice_fails:
  "product_findUnique example_db ''P1'' = Some \<lparr>name = ''Shirt'', price = 10, inStock = 5\<rparr>
   \<and> checkout_POST (example_env ''S1'' ''O1'') ''store''
       \<lparr>products = Some [\<lparr>productId = ''P1'', quantity = 3\<rparr>, \<lparr>productId = ''P1'', quantity = 3\<rparr>],
        shippingDetails = Some example_shipping\<rparr> example_db
     = ((400, ErrorJson ''Not enough stock for Shirt.''), example_db)"
  by (simp add: checkout_defs product_findUnique_def product_update_def example_db_def
      example_env_def)

lemma fl_cents_1: "toNumber (11 / 10) = Num (of_int 4953959590107546 * pow2 (- 52))"
  unfolding toNumber_def by (rule fl_normal) (simp_all add: pow2_def)

lemma fl_cents_2:
  "fl (of_int 4953959590107546 * pow2 (- 52) * 100) = Num (of_int 7740561859543041 * pow2 (- 46))"
  by (rule fl_normal) (simp_all add: pow2_def)

lemma fl_cents_3:
  "fl (of_int 7740561859543041 * pow2 (- 46) * of_int 3)
     = Num (of_int 5805421394657281 * pow2 (- 44))"
  by (rule fl_normal) (simp_all add: pow2_def)

lemma fl_cents_4:
  "fl (0 + of_int 5805421394657281 * pow2 (- 44)) = Num (of_int 5805421394657281 * pow2 (- 44))"
  by (rule fl_normal) (simp_all add: pow2_def)

lemma fl_cents_5:
  "fl (of_int 5805421394657281 * pow2 (- 44) / 100) = Num (of_int 7430939385161320 * pow2 (- 51))"
  by (rule fl_normal) (simp_all add: pow2_def)

lemma cents_total:
  "fdiv (reduce_total [\<lparr>li_name = ''Shirt'', li_quantity = 3,
                         unit_amount = fmul (toNumber (11 / 10)) (Num 100)\<rparr>]) (Num 100)
   = Num (928867423145165 / 281474976710656)"
proof -
  have "fmul (toNumber (11 / 10)) (Num 100) = Num (of_int 7740561859543041 * pow2 (- 46))"
    by (simp only: fl_cents_1 fmul.simps fl_cents_2)
  then have "reduce_total [\<lparr>li_name = ''Shirt'', li_quantity = 3,
                         unit_amount = fmul (toNumber (11 / 10)) (Num 100)\<rparr>]
      = Num (of_int 5805421394657281 * pow2 (- 44))"
    by (simp only: reduce_total_def foldl.simps line_item.simps fmul.simps fadd.simps
        fl_cents_3 fl_cents_4)
  then have "fdiv (reduce_total [\<lparr>li_name = ''Shirt'', li_quantity = 3,
                         unit_amount = fmul (toNumber (11 / 10)) (Num 100)\<rparr>]) (Num 100)
      = Num (of_int 7430939385161320 * pow2 (- 51))"
    using fl_cents_5 by (simp only: fdiv.simps) simp
  then show ?thesis by (simp add: pow2_def)
qed

text \<open>
  The total is not a fixed-point sum: three items at 1.10 give the double
  3.3000000000000007, which is neither 3.30 nor the double nearest to 3.30.
\<close>

theorem checkout_total_is_floating_point:
  "totalAmount (projr (fst (transaction (checkout_body ''store''
       [\<lparr>productId = ''P1'', quantity = 3\<rparr>] example_shipping ''S1'' ''O1'') example_cents_db)))
     = Num (928867423145165 / 281474976710656)
   \<and> exact_total example_cents_db [\<lparr>productId = ''P1'', quantity = 3\<rparr>] = 33 / 10
   \<and> (928867423145165 / 281474976710656 :: real) \<noteq> 33 / 10"
proof -
  have "totalAmount (projr (fst (transaction (checkout_body ''store''
       [\<lparr>productId = ''P1'', quantity = 3\<rparr>] example_shipping ''S1'' ''O1'') example_cents_db)))
     = fdiv (reduce_total [\<lparr>li_name = ''Shirt'', li_quantity = 3,
                         unit_amount = fmul (toNumber (11 / 10)) (Num 100)\<rparr>]) (Num 100)"
    by (simp add: transaction_def checkout_body_def shippingDetails_create_def order_create_def
        Let_def product_findUnique_def product_update_def example_cents_db_def)
  moreover have "exact_total example_cents_db [\<lparr>productId = ''P1'', quantity = 3\<rparr>] = 33 / 10"
    by (simp add: exact_total_def product_findUnique_def example_cents_db_def)
  ultimately show ?thesis using cents_total by simp
qed

section \<open>Two checkouts of the same product\<close>





section \<open>Why the hypotheses are needed\<close>

text \<open>
  Why the quantities of claim C2 must not be negative: an item of quantity -10 raises the
  stock inside the transaction, and the item of quantity 12 that follows passes the guard on
  a stock of 5.
\<close>

theorem checkout_negative_quantity_passes:
  "checkout_POST (example_env ''S1'' ''O1'') ''store''
       \<lparr>products = Some [\<lparr>productId = ''P1'', quantity = - 10\<rparr>, \<lparr>productId = ''P1'', quantity = 12\<rparr>],
        shippingDetails = Some example_shipping\<rparr> example_db
     = ((200, UrlJson (Some ''https://pay.example/1'')),
        \<lparr>productTable = [(''P1'', \<lparr>name = ''Shirt'', price = 10, inStock = 3\<rparr>)],
         orderTable = [(''O1'', (example_order 0)\<lparr>orderItems :=
            [\<lparr>item_productId = ''P1'', item_quantity = - 10\<rparr>,
             \<lparr>item_productId = ''P1'', item_quantity = 12\<rparr>]\<rparr>)],
         shippingDetailsTable = [(''S1'', example_shipping)]\<rparr>)"
  by (simp add: checkout_defs product_findUnique_def product_update_def example_db_def
      example_env_def example_order_def)

end
